theory Spec2Isabelle
  imports Complex_Main
begin


section \<open>Python strings\<close>

text \<open>
  Strings are lists of characters. \<open>str.lower\<close> and \<open>str.upper\<close> are modelled on the
  ASCII letters, which is what they do on ASCII text (HTTP methods, OpenAPI paths).
\<close>

definition upper_letters :: string where
  "upper_letters = ''ABCDEFGHIJKLMNOPQRSTUVWXYZ''"

definition lower_letters :: string where
  "lower_letters = ''abcdefghijklmnopqrstuvwxyz''"

definition lower_char :: "char \<Rightarrow> char" where
  "lower_char c = (case map_of (zip upper_letters lower_letters) c of Some d \<Rightarrow> d | None \<Rightarrow> c)"

definition upper_char :: "char \<Rightarrow> char" where
  "upper_char c = (case map_of (zip lower_letters upper_letters) c of Some d \<Rightarrow> d | None \<Rightarrow> c)"

definition str_lower :: "string \<Rightarrow> string" where
  "str_lower s = map lower_char s"

definition str_upper :: "string \<Rightarrow> string" where
  "str_upper s = map upper_char s"

definition startswith :: "string \<Rightarrow> string \<Rightarrow> bool" where
  "startswith s p = (take (length p) s = p)"

text \<open>\<open>sub in s\<close>: substring containment.\<close>

fun str_in :: "string \<Rightarrow> string \<Rightarrow> bool" where
  "str_in sub [] = (sub = [])"
| "str_in sub (c # cs) = (startswith (c # cs) sub \<or> str_in sub cs)"

text \<open>
  \<open>s.replace(old, new)\<close>: every non-overlapping occurrence of \<open>old\<close>, found from the
  left, is replaced in one pass; the replacement text is not scanned again. With an empty
  \<open>old\<close>, Python inserts \<open>new\<close> before every character and at the end.
\<close>

function str_replace :: "string \<Rightarrow> string \<Rightarrow> string \<Rightarrow> string" where
  "str_replace old new [] = (if old = [] then new else [])"
| "str_replace old new (c # cs) =
     (if old = [] then new @ c # str_replace old new cs
      else if startswith (c # cs) old
      then new @ str_replace old new (drop (length old) (c # cs))
      else c # str_replace old new cs)"
  by pat_completeness auto
termination
  by (relation "measure (\<lambda>(old, new, s). length s)") auto

text \<open>\<open>s.lstrip(chars)\<close>: drop leading characters that occur in \<open>chars\<close>.\<close>

definition lstrip :: "string \<Rightarrow> string \<Rightarrow> string" where
  "lstrip chars s = dropWhile (\<lambda>c. c \<in> set chars) s"

section \<open>Name derivation\<close>

text \<open>
  \<open>normalize_tool_name(method, path)\<close> of \<open>tools/api.py\<close>: only the method is
  lower-cased; the path enters the f-string as it is.
\<close>

definition normalize_tool_name :: "string \<Rightarrow> string \<Rightarrow> string" where
  "normalize_tool_name method path =
     lstrip ''_''
       (str_replace ''__'' ''_''
         (str_replace ''-'' ''_''
           (str_replace ''}'' ''''
             (str_replace ''{'' ''''
               (str_replace ''/'' ''_''
                 (str_replace '' '' ''_'' (str_lower method @ '' '' @ path)))))))"

text \<open>
  The derivation in the specification's words: every run of underscores becomes one
  underscore. \<open>derive_name_spec\<close> lower-cases the whole string;
  \<open>derive_name_method_lower\<close> lower-cases the method only.
\<close>

fun collapse_underscores :: "string \<Rightarrow> string" where
  "collapse_underscores (a # b # cs) =
     (if a = CHR ''_'' \<and> b = CHR ''_'' then collapse_underscores (b # cs)
      else a # collapse_underscores (b # cs))"
| "collapse_underscores cs = cs"

definition separators :: "string \<Rightarrow> string" where
  "separators s =
     map (\<lambda>c. if c \<in> set '' /-'' then CHR ''_'' else c) (filter (\<lambda>c. c \<notin> set ''{}'') s)"

definition derive_name_spec :: "string \<Rightarrow> string \<Rightarrow> string" where
  "derive_name_spec method path =
     lstrip ''_'' (collapse_underscores (separators (str_lower (method @ '' '' @ path))))"

definition derive_name_method_lower :: "string \<Rightarrow> string \<Rightarrow> string" where
  "derive_name_method_lower method path =
     lstrip ''_'' (collapse_underscores (separators (str_lower method @ '' '' @ path)))"

section \<open>Python values and exceptions\<close>

text \<open>
  Parsed JSON and the dictionaries the tools return. A Python \<open>dict\<close> is an association
  list in insertion order (a \<open>dict\<close> has no duplicate keys, so the lists that stand for
  one have distinct keys); \<open>JFloat\<close> carries the exact value of a float and \<open>JNaN\<close> is
  the float \<open>nan\<close>. Rounding of floats is not modelled.
\<close>

datatype json =
    JNull
  | JBool bool
  | JNum int
  | JFloat real
  | JNaN
  | JStr string
  | JArr "json list"
  | JObj "(string \<times> json) list"

text \<open>
  The exceptions that occur. \<open>HTTPError\<close>, \<open>Timeout\<close> and \<open>ConnectionError\<close> are
  subclasses of \<open>requests.RequestException\<close>; \<open>RequestException\<close> stands for every
  other member of that class; \<open>HttpxError\<close> stands for \<open>httpx.HTTPError\<close> and its
  subclasses. \<open>AttributeError t a\<close>: a value of type \<open>t\<close> has no
  attribute \<open>a\<close>.
\<close>

datatype exn =
    AttributeError string string
  | KeyError string
  | IndexError string
  | ZeroDivisionError string
  | TypeError string
  | ValueError string
  | OSError string
  | Timeout string
  | ConnectionError string
  | HTTPError string
  | RequestException string
  | HttpxError string

fun exn_str :: "exn \<Rightarrow> string" where
  "exn_str (AttributeError t a) =
     [CHR 0x27] @ t @ [CHR 0x27] @ '' object has no attribute '' @ [CHR 0x27] @ a @ [CHR 0x27]"
| "exn_str (KeyError k) = [CHR 0x27] @ k @ [CHR 0x27]"
| "exn_str (IndexError m) = m"
| "exn_str (ZeroDivisionError m) = m"
| "exn_str (TypeError m) = m"
| "exn_str (ValueError m) = m"
| "exn_str (OSError m) = m"
| "exn_str (Timeout m) = m"
| "exn_str (ConnectionError m) = m"
| "exn_str (HTTPError m) = m"
| "exn_str (RequestException m) = m"
| "exn_str (HttpxError m) = m"

fun type_name :: "json \<Rightarrow> string" where
  "type_name JNull = ''NoneType''"
| "type_name (JBool b) = ''bool''"
| "type_name (JNum n) = ''int''"
| "type_name (JFloat r) = ''float''"
| "type_name JNaN = ''float''"
| "type_name (JStr s) = ''str''"
| "type_name (JArr xs) = ''list''"
| "type_name (JObj kvs) = ''dict''"

text \<open>Truth value of a Python object, as \<open>if x:\<close> and \<open>not x\<close> read it.\<close>

fun truthy :: "json \<Rightarrow> bool" where
  "truthy JNull = False"
| "truthy (JBool b) = b"
| "truthy (JNum n) = (n \<noteq> 0)"
| "truthy (JFloat r) = (r \<noteq> 0)"
| "truthy JNaN = True"
| "truthy (JStr s) = (s \<noteq> [])"
| "truthy (JArr xs) = (xs \<noteq> [])"
| "truthy (JObj kvs) = (kvs \<noteq> [])"

text \<open>
  \<open>x.get(key, default)\<close>, \<open>x.items()\<close>, \<open>x.values()\<close>, \<open>x.keys()\<close>: only a
  \<open>dict\<close> has these methods; on any other value the attribute lookup raises.
\<close>

fun py_get :: "json \<Rightarrow> string \<Rightarrow> json \<Rightarrow> exn + json" where
  "py_get (JObj kvs) k d = Inr (case map_of kvs k of Some v \<Rightarrow> v | None \<Rightarrow> d)"
| "py_get j k d = Inl (AttributeError (type_name j) ''get'')"

fun py_items :: "json \<Rightarrow> exn + (string \<times> json) list" where
  "py_items (JObj kvs) = Inr kvs"
| "py_items j = Inl (AttributeError (type_name j) ''items'')"

fun py_values :: "json \<Rightarrow> exn + json list" where
  "py_values (JObj kvs) = Inr (map snd kvs)"
| "py_values j = Inl (AttributeError (type_name j) ''values'')"

fun py_keys :: "json \<Rightarrow> exn + string list" where
  "py_keys (JObj kvs) = Inr (map fst kvs)"
| "py_keys j = Inl (AttributeError (type_name j) ''keys'')"

text \<open>
  \<open>x[key]\<close> with a string key, and iteration \<open>for y in x\<close>: a \<open>dict\<close> yields
  its keys, a string its characters.
\<close>

fun py_getitem :: "json \<Rightarrow> string \<Rightarrow> exn + json" where
  "py_getitem (JObj kvs) k = (case map_of kvs k of Some v \<Rightarrow> Inr v | None \<Rightarrow> Inl (KeyError k))"
| "py_getitem j k = Inl (TypeError (type_name j @ '' cannot be indexed by str''))"

fun py_iter :: "json \<Rightarrow> exn + json list" where
  "py_iter (JArr xs) = Inr xs"
| "py_iter (JObj kvs) = Inr (map (JStr \<circ> fst) kvs)"
| "py_iter (JStr s) = Inr (map (\<lambda>c. JStr [c]) s)"
| "py_iter j = Inl (TypeError ([CHR 0x27] @ type_name j @ [CHR 0x27] @ '' object is not iterable''))"

text \<open>\<open>s.split(sep)\<close> for a separator of one character.\<close>

fun str_split :: "char \<Rightarrow> string \<Rightarrow> string list" where
  "str_split sep [] = [[]]"
| "str_split sep (c # cs) =
     (if c = sep then [] # str_split sep cs
      else case str_split sep cs of
             w # ws \<Rightarrow> (c # w) # ws
           | [] \<Rightarrow> [[c]])"

text \<open>Decimal rendering of an integer, as \<open>str\<close> and an f-string give it.\<close>

definition digit_char :: "nat \<Rightarrow> char" where
  "digit_char d = ''0123456789'' ! d"

function str_nat :: "nat \<Rightarrow> string" where
  "str_nat n = (if n < 10 then [digit_char n] else str_nat (n div 10) @ [digit_char (n mod 10)])"
  by pat_completeness auto
termination
  by (relation "measure id") auto

definition str_int :: "int \<Rightarrow> string" where
  "str_int i = (if i < 0 then ''-'' @ str_nat (nat (- i)) else str_nat (nat i))"

section \<open>Settings\<close>

text \<open>The kvs of \<open>Settings\<close> in \<open>config.py\<close> that the tools read.\<close>

record settings =
  server_base_url :: string
  api_key :: "string option"
  auth_token :: "string option"
  filesystem_storage :: string
  request_timeout :: int
  excluded_endpoint_patterns :: "string list"

definition default_settings :: settings where
  "default_settings =
     \<lparr>server_base_url = ''https://pad.crc.nd.edu'', api_key = None, auth_token = None,
      filesystem_storage = ''./storage'', request_timeout = 30,
      excluded_endpoint_patterns = [''stream'', ''webpage'']\<rparr>"

text \<open>\<open>AuthConfig.get_headers\<close>: a credential is sent when it is set and not empty.\<close>

definition get_headers :: "settings \<Rightarrow> (string \<times> string) list" where
  "get_headers cfg =
     (case api_key cfg of
        Some k \<Rightarrow> if k \<noteq> [] then [(''X-API-Key'', k)] else []
      | None \<Rightarrow> [])
     @ (case auth_token cfg of
        Some t \<Rightarrow> if t \<noteq> [] then [(''Authorization'', ''Bearer '' @ t)] else []
      | None \<Rightarrow> [])"

section \<open>Endpoint filter\<close>

definition is_binary_mime :: "string \<Rightarrow> bool" where
  "is_binary_mime mime_type =
     (startswith mime_type ''image/''
      \<or> startswith mime_type ''application/octet-stream''
      \<or> startswith mime_type ''application/pdf'')"

text \<open>
  The loop over \<open>responses.values()\<close> of \<open>should_register_endpoint\<close>: \<open>Inr False\<close>
  is the early \<open>return False\<close>, \<open>Inr True\<close> is the loop running to its end.
\<close>

fun scan_responses :: "string \<Rightarrow> json list \<Rightarrow> exn + bool" where
  "scan_responses path [] = Inr True"
| "scan_responses path (response # rest) =
     (case py_get response ''content'' (JObj []) of
        Inl e \<Rightarrow> Inl e
      | Inr content \<Rightarrow>
          (case py_keys content of
             Inl e \<Rightarrow> Inl e
           | Inr mime_types \<Rightarrow>
               if list_ex (\<lambda>mime_type. is_binary_mime mime_type
                             \<and> \<not> str_in ''download-image'' path) mime_types
               then Inr False
               else scan_responses path rest))"

definition should_register_endpoint :: "settings \<Rightarrow> string \<Rightarrow> string \<Rightarrow> json \<Rightarrow> exn + bool" where
  "should_register_endpoint cfg path method operation =
     (if list_ex (\<lambda>pattern. str_in pattern (str_lower path)) (excluded_endpoint_patterns cfg)
      then Inr False
      else case py_get operation ''responses'' (JObj []) of
             Inl e \<Rightarrow> Inl e
           | Inr responses \<Rightarrow>
               (case py_values responses of
                  Inl e \<Rightarrow> Inl e
                | Inr rs \<Rightarrow> scan_responses path rs))"

text \<open>
  What an operation declares, read off the document: the content types of its responses,
  and whether the operation has the shape OpenAPI gives it (an object whose
  \<open>responses\<close>, when present, is an object of response objects, each with a
  \<open>content\<close> object or none).
\<close>

definition response_mime_types :: "json \<Rightarrow> string list" where
  "response_mime_types response =
     (case response of
        JObj kvs \<Rightarrow> (case map_of kvs ''content'' of Some (JObj c) \<Rightarrow> map fst c | _ \<Rightarrow> [])
      | _ \<Rightarrow> [])"

definition declared_mime_types :: "json \<Rightarrow> string list" where
  "declared_mime_types operation =
     (case operation of
        JObj kvs \<Rightarrow>
          (case map_of kvs ''responses'' of
             Some (JObj rs) \<Rightarrow> concat (map (response_mime_types \<circ> snd) rs)
           | _ \<Rightarrow> [])
      | _ \<Rightarrow> [])"

definition declares_binary :: "json \<Rightarrow> bool" where
  "declares_binary operation = list_ex is_binary_mime (declared_mime_types operation)"

definition well_formed_response :: "json \<Rightarrow> bool" where
  "well_formed_response response =
     (case response of
        JObj kvs \<Rightarrow>
          (case map_of kvs ''content'' of None \<Rightarrow> True | Some (JObj c) \<Rightarrow> True | Some _ \<Rightarrow> False)
      | _ \<Rightarrow> False)"

definition well_formed_operation :: "json \<Rightarrow> bool" where
  "well_formed_operation operation =
     (case operation of
        JObj kvs \<Rightarrow>
          (case map_of kvs ''responses'' of
             None \<Rightarrow> True
           | Some (JObj rs) \<Rightarrow> list_all (well_formed_response \<circ> snd) rs
           | Some _ \<Rightarrow> False)
      | _ \<Rightarrow> False)"

definition excluded_path :: "settings \<Rightarrow> string \<Rightarrow> bool" where
  "excluded_path cfg path =
     list_ex (\<lambda>pattern. str_in pattern (str_lower path)) (excluded_endpoint_patterns cfg)"

text \<open>An operation with one response, of content type \<open>image/png\<close>.\<close>

definition image_operation :: json where
  "image_operation =
     JObj [(''responses'', JObj [(''200'', JObj [(''content'', JObj [(''image/png'', JObj [])])])])]"

section \<open>Registration pass\<close>

text \<open>
  The tool registry is the runtime's; the model records the calls of \<open>mcp.add_tool\<close> in
  order. A tool is bound either to a static function, named, or to the closure
  \<open>make_dynamic_tool_func(path, method, operation)\<close>.

  \<open>str_of\<close> is Python's \<open>str\<close> on a value. How the interpreter renders floats and
  containers is not modelled, so the functions that format values take it as a parameter;
  \<open>scalar_str\<close> is \<open>str\<close> on \<open>None\<close>, booleans, integers and strings.
\<close>

datatype tool_fn = Static string | Dynamic string string json

record tool =
  tool_name :: string
  tool_description :: "string option"
  tool_func :: tool_fn

record registration =
  mcp_tools :: "tool list"
  registered_count :: nat
  skipped_count :: nat

fun scalar_str :: "json \<Rightarrow> string" where
  "scalar_str JNull = ''None''"
| "scalar_str (JBool b) = (if b then ''True'' else ''False'')"
| "scalar_str (JNum n) = str_int n"
| "scalar_str (JStr s) = s"
| "scalar_str j = []"

definition newline :: string where
  "newline = [CHR 0x0A]"

definition make_docstring :: "(json \<Rightarrow> string) \<Rightarrow> json \<Rightarrow> json \<Rightarrow> string \<Rightarrow> string \<Rightarrow> string" where
  "make_docstring str_of summary description method path =
     str_of summary @ newline @ newline @ str_of description @ newline @ newline
     @ ''(This tool calls: '' @ str_upper method @ '' '' @ path @ '')''"

definition http_methods :: "string list" where
  "http_methods = [''get'', ''post'', ''put'', ''delete'', ''patch'']"

text \<open>The inner loop of \<open>register_openapi_endpoints_as_tools\<close>, over \<open>path_item.items()\<close>.\<close>

fun register_methods ::
  "settings \<Rightarrow> (json \<Rightarrow> string) \<Rightarrow> string \<Rightarrow> (string \<times> json) list \<Rightarrow> registration
   \<Rightarrow> exn + registration" where
  "register_methods cfg str_of path [] st = Inr st"
| "register_methods cfg str_of path ((method, operation) # rest) st =
     (if str_lower method \<notin> set http_methods then register_methods cfg str_of path rest st
      else case should_register_endpoint cfg path method operation of
        Inl e \<Rightarrow> Inl e
      | Inr False \<Rightarrow>
          register_methods cfg str_of path rest (st\<lparr>skipped_count := skipped_count st + 1\<rparr>)
      | Inr True \<Rightarrow>
          (case py_get operation ''summary'' (JStr []) of
             Inl e \<Rightarrow> Inl e
           | Inr summary \<Rightarrow>
               (case py_get operation ''description'' (JStr []) of
                  Inl e \<Rightarrow> Inl e
                | Inr description \<Rightarrow>
                    register_methods cfg str_of path rest
                      (st\<lparr>mcp_tools := mcp_tools st @
                            [\<lparr>tool_name = normalize_tool_name method path,
                              tool_description =
                                Some (make_docstring str_of summary description method path),
                              tool_func = Dynamic path method operation\<rparr>],
                          registered_count := registered_count st + 1\<rparr>))))"

text \<open>The outer loop, over \<open>paths.items()\<close>; a falsy path item is skipped.\<close>

fun register_paths ::
  "settings \<Rightarrow> (json \<Rightarrow> string) \<Rightarrow> (string \<times> json) list \<Rightarrow> registration
   \<Rightarrow> exn + registration" where
  "register_paths cfg str_of [] st = Inr st"
| "register_paths cfg str_of ((path, path_item) # rest) st =
     (if \<not> truthy path_item then register_paths cfg str_of rest st
      else case py_items path_item of
        Inl e \<Rightarrow> Inl e
      | Inr methods \<Rightarrow>
          (case register_methods cfg str_of path methods st of
             Inl e \<Rightarrow> Inl e
           | Inr st' \<Rightarrow> register_paths cfg str_of rest st'))"

definition register_openapi_endpoints_as_tools ::
  "settings \<Rightarrow> (json \<Rightarrow> string) \<Rightarrow> tool list \<Rightarrow> json \<Rightarrow> exn + registration" where
  "register_openapi_endpoints_as_tools cfg str_of mcp spec =
     (case py_get spec ''paths'' (JObj []) of
        Inl e \<Rightarrow> Inl e
      | Inr paths \<Rightarrow>
          (case py_items paths of
             Inl e \<Rightarrow> Inl e
           | Inr items \<Rightarrow>
               register_paths cfg str_of items
                 \<lparr>mcp_tools = mcp, registered_count = 0, skipped_count = 0\<rparr>))"

text \<open>
  \<open>register_api_tools\<close>, given what \<open>fetch_openapi_spec\<close> returned (\<open>None\<close> on a
  failed fetch): the static ontology tool first, then the dynamic tools when the document
  is truthy.
\<close>

definition download_ontology_tool :: tool where
  "download_ontology_tool =
     \<lparr>tool_name = ''download_ontology'', tool_description = None,
      tool_func = Static ''download_ontology''\<rparr>"

definition register_api_tools ::
  "settings \<Rightarrow> (json \<Rightarrow> string) \<Rightarrow> tool list \<Rightarrow> json option \<Rightarrow> exn + tool list" where
  "register_api_tools cfg str_of mcp fetched =
     (let mcp1 = mcp @ [download_ontology_tool] in
      case fetched of
        None \<Rightarrow> Inr mcp1
      | Some spec \<Rightarrow>
          if truthy spec
          then (case register_openapi_endpoints_as_tools cfg str_of mcp1 spec of
                  Inl e \<Rightarrow> Inl e
                | Inr st \<Rightarrow> Inr (mcp_tools st))
          else Inr mcp1)"

text \<open>
  The operations of a document that the pass reaches and the filter accepts, as (method,
  path) pairs in document order, read off the document without the loop.
\<close>

definition eligible_methods :: "settings \<Rightarrow> string \<Rightarrow> (string \<times> json) list \<Rightarrow> (string \<times> string) list" where
  "eligible_methods cfg path methods =
     map (\<lambda>(method, operation). (method, path))
       (filter (\<lambda>(method, operation). str_lower method \<in> set http_methods
                  \<and> should_register_endpoint cfg path method operation = Inr True) methods)"

definition eligible_operations :: "settings \<Rightarrow> json \<Rightarrow> (string \<times> string) list" where
  "eligible_operations cfg spec =
     (case py_get spec ''paths'' (JObj []) of
        Inr (JObj items) \<Rightarrow>
          concat (map (\<lambda>(path, path_item).
                    case path_item of JObj methods \<Rightarrow> eligible_methods cfg path methods | _ \<Rightarrow> [])
                  items)
      | _ \<Rightarrow> [])"

text \<open>A document with two paths that differ in a hyphen and an underscore.\<close>

definition colliding_document :: json where
  "colliding_document =
     JObj [(''paths'', JObj
       [(''/card-types'', JObj [(''get'', JObj [(''summary'', JStr ''A'')])]),
        (''/card_types'', JObj [(''get'', JObj [(''summary'', JStr ''B'')])])])]"

definition tool_names :: "registration \<Rightarrow> string list" where
  "tool_names st = map tool_name (mcp_tools st)"

definition derived_names :: "(string \<times> string) list \<Rightarrow> string list" where
  "derived_names ops = map (\<lambda>(method, path). normalize_tool_name method path) ops"

text \<open>A document that is an object without \<open>paths\<close>.\<close>

definition document_without_paths :: json where
  "document_without_paths = JObj [(''openapi'', JStr ''3.0.0'')]"

section \<open>HTTP executor\<close>

text \<open>
  The keyword arguments of \<open>requests.request\<close>, and what that call gives back: a
  response, or an exception. Of a response the executor reads the status, the
  \<open>Content-Type\<close> header, the bytes, the text and the result of \<open>response.json()\<close>
  (\<open>None\<close> when the body is not JSON and \<open>json()\<close> raises \<open>ValueError\<close>); reason
  and URL enter the message of \<open>raise_for_status\<close>.
\<close>

type_synonym params = "(string \<times> json) list"

record request =
  req_method :: string
  req_url :: string
  req_params :: "params option"
  req_json :: "params option"
  req_headers :: "(string \<times> string) list"
  req_timeout :: int

record response =
  resp_status :: int
  resp_reason :: string
  resp_url :: string
  resp_content_type :: "string option"
  resp_content :: string
  resp_text :: string
  resp_json :: "json option"

text \<open>
  What lies outside the program during one call: the remote server behind
  \<open>requests.request\<close>, the storage directory (\<open>mkdir\<close> and the write of a file give
  \<open>None\<close> or the exception they raise) and the value of \<open>uuid.uuid4()\<close>.
\<close>

record world =
  http :: "request \<Rightarrow> exn + response"
  storage_exists :: bool
  mkdir :: "string \<Rightarrow> exn option"
  write_file :: "string \<Rightarrow> string \<Rightarrow> exn option"
  uuid4 :: string

text \<open>
  \<open>Response.raise_for_status\<close> of the requests library: \<open>HTTPError\<close> for a status
  from 400 to 599, nothing for any other status.
\<close>

definition raise_for_status :: "response \<Rightarrow> exn option" where
  "raise_for_status r =
     (if 400 \<le> resp_status r \<and> resp_status r < 500
      then Some (HTTPError (str_int (resp_status r) @ '' Client Error: '' @ resp_reason r
                            @ '' for url: '' @ resp_url r))
      else if 500 \<le> resp_status r \<and> resp_status r < 600
      then Some (HTTPError (str_int (resp_status r) @ '' Server Error: '' @ resp_reason r
                            @ '' for url: '' @ resp_url r))
      else None)"

definition api_request ::
  "settings \<Rightarrow> string \<Rightarrow> string \<Rightarrow> params option \<Rightarrow> params option \<Rightarrow> int option \<Rightarrow> request" where
  "api_request cfg url method params json_data timeout =
     \<lparr>req_method = str_upper method,
      req_url = url,
      req_params = (if str_upper method = ''GET'' then params else None),
      req_json = (if str_upper method \<noteq> ''GET'' then json_data else None),
      req_headers = get_headers cfg,
      req_timeout = (case timeout of None \<Rightarrow> request_timeout cfg | Some t \<Rightarrow> t)\<rparr>"

text \<open>The branch that saves an image or binary body under the storage directory.\<close>

definition save_binary :: "settings \<Rightarrow> world \<Rightarrow> string \<Rightarrow> response \<Rightarrow> exn + json" where
  "save_binary cfg w content_type r =
     (case (if storage_exists w then None else mkdir w (filesystem_storage cfg)) of
        Some e \<Rightarrow> Inl e
      | None \<Rightarrow>
          (case (if startswith content_type ''image/''
                 then (case str_split CHR ''/'' content_type of
                         a # b # rest \<Rightarrow> Inr b
                       | _ \<Rightarrow> Inl (IndexError ''list index out of range''))
                 else Inr ''bin'') of
             Inl e \<Rightarrow> Inl e
           | Inr ext \<Rightarrow>
               (let full_path = filesystem_storage cfg @ ''/'' @ uuid4 w @ ''.'' @ ext in
                case write_file w full_path (resp_content r) of
                  Some e \<Rightarrow> Inl e
                | None \<Rightarrow>
                    Inr (JObj [(''success'', JBool True),
                               (''filename'', JStr full_path),
                               (''path'', JStr full_path),
                               (''content_type'', JStr content_type),
                               (''description'',
                                JStr (''The binary data has been saved to: '' @ full_path))]))))"

text \<open>The body of the \<open>try\<close> block of \<open>make_api_request\<close>, from the response on.\<close>

definition handle_response :: "settings \<Rightarrow> world \<Rightarrow> string \<Rightarrow> response \<Rightarrow> exn + json" where
  "handle_response cfg w url r =
     (if resp_status r = 404 then
        Inr (JObj [(''success'', JBool False),
                   (''error'', JStr (''Resource not found: '' @ url)),
                   (''status_code'', JNum 404),
                   (''description'',
                    JStr ''The requested resource could not be found on the server.'')])
      else if resp_status r = 401 then
        Inr (JObj [(''success'', JBool False),
                   (''error'', JStr ''Authentication required''),
                   (''status_code'', JNum 401),
                   (''description'',
                    JStr ''The request requires valid authentication credentials.'')])
      else if resp_status r = 403 then
        Inr (JObj [(''success'', JBool False),
                   (''error'', JStr ''Access forbidden''),
                   (''status_code'', JNum 403),
                   (''description'',
                    JStr ''You do not have permission to access this resource.'')])
      else case raise_for_status r of
        Some e \<Rightarrow> Inl e
      | None \<Rightarrow>
          (let content_type =
                 str_lower (case resp_content_type r of Some c \<Rightarrow> c | None \<Rightarrow> [])
           in if startswith content_type ''image/''
                 \<or> startswith content_type ''application/octet-stream''
              then save_binary cfg w content_type r
              else case resp_json r of
                     Some j \<Rightarrow> Inr j
                   | None \<Rightarrow>
                       Inr (JObj [(''success'', JBool True),
                                  (''data'', JStr (resp_text r)),
                                  (''content_type'', JStr content_type),
                                  (''description'', JStr ''Response is not JSON data'')])))"

text \<open>
  The \<open>except\<close> clauses, in their order: \<open>Timeout\<close>, \<open>ConnectionError\<close>, then every
  other \<open>RequestException\<close>. Any other exception leaves the function.
\<close>

fun handle_exception :: "string \<Rightarrow> int \<Rightarrow> exn \<Rightarrow> exn + json" where
  "handle_exception url timeout (Timeout m) =
     Inr (JObj [(''success'', JBool False),
                (''error'', JStr ''Request timed out''),
                (''status_code'', JNum 408),
                (''description'',
                 JStr (''The request to '' @ url @ '' timed out after '' @ str_int timeout
                       @ '' seconds.''))])"
| "handle_exception url timeout (ConnectionError m) =
     Inr (JObj [(''success'', JBool False),
                (''error'', JStr ''Connection failed''),
                (''status_code'', JNum 503),
                (''description'',
                 JStr (''Could not connect to '' @ url
                       @ ''. The server may be down or unreachable.''))])"
| "handle_exception url timeout (HTTPError m) =
     Inr (JObj [(''success'', JBool False),
                (''error'', JStr m),
                (''status_code'', JNum 500),
                (''description'', JStr (''Request failed: '' @ m))])"
| "handle_exception url timeout (RequestException m) =
     Inr (JObj [(''success'', JBool False),
                (''error'', JStr m),
                (''status_code'', JNum 500),
                (''description'', JStr (''Request failed: '' @ m))])"
| "handle_exception url timeout e = Inl e"

definition make_api_request ::
  "settings \<Rightarrow> world \<Rightarrow> string \<Rightarrow> string \<Rightarrow> params option \<Rightarrow> params option \<Rightarrow> int option
   \<Rightarrow> exn + json" where
  "make_api_request cfg w url method params json_data timeout =
     (let req = api_request cfg url method params json_data timeout in
      case (case http w req of Inl e \<Rightarrow> Inl e | Inr r \<Rightarrow> handle_response cfg w url r) of
        Inl e \<Rightarrow> handle_exception url (req_timeout req) e
      | Inr result \<Rightarrow> Inr result)"

section \<open>Request closure\<close>

text \<open>
  The loop of \<open>dynamic_tool_func\<close> over the operation's parameter descriptors, on the
  pair of the remaining parameters and the URL. A name that is a list or a dict cannot be
  looked up in a \<open>dict\<close> (\<open>TypeError\<close>); any other name that is not a string is not
  a key of the mapping.
\<close>

definition path_token :: "string \<Rightarrow> string" where
  "path_token pname = ''{'' @ pname @ ''}''"

definition dict_pop :: "string \<Rightarrow> params \<Rightarrow> params" where
  "dict_pop k ps = filter (\<lambda>(k', v). k' \<noteq> k) ps"

fun substitute_path_params ::
  "(json \<Rightarrow> string) \<Rightarrow> json list \<Rightarrow> params \<times> string \<Rightarrow> exn + params \<times> string" where
  "substitute_path_params str_of [] (params, final_url) = Inr (params, final_url)"
| "substitute_path_params str_of (param # rest) (params, final_url) =
     (case py_get param ''in'' JNull of
        Inl e \<Rightarrow> Inl e
      | Inr loc \<Rightarrow>
          if loc = JStr ''path''
          then (case py_getitem param ''name'' of
                  Inl e \<Rightarrow> Inl e
                | Inr (JStr pname) \<Rightarrow>
                    (case map_of params pname of
                       Some v \<Rightarrow>
                         substitute_path_params str_of rest
                           (dict_pop pname params,
                            str_replace (path_token pname) (str_of v) final_url)
                     | None \<Rightarrow> substitute_path_params str_of rest (params, final_url))
                | Inr (JArr xs) \<Rightarrow> Inl (TypeError ''unhashable type: list'')
                | Inr (JObj kvs) \<Rightarrow> Inl (TypeError ''unhashable type: dict'')
                | Inr other \<Rightarrow> substitute_path_params str_of rest (params, final_url))
          else substitute_path_params str_of rest (params, final_url))"

text \<open>
  The closure up to its call of \<open>make_api_request\<close>: the request it has
  \<open>requests.request\<close> send, or the exception raised before anything is sent.
\<close>

definition closure_request ::
  "settings \<Rightarrow> (json \<Rightarrow> string) \<Rightarrow> string \<Rightarrow> string \<Rightarrow> json \<Rightarrow> params option \<Rightarrow> exn + request" where
  "closure_request cfg str_of path method operation parameters =
     (let params = (case parameters of Some ps \<Rightarrow> ps | None \<Rightarrow> []) in
      case py_get operation ''parameters'' (JArr []) of
        Inl e \<Rightarrow> Inl e
      | Inr declared \<Rightarrow>
          (case py_iter declared of
             Inl e \<Rightarrow> Inl e
           | Inr descriptors \<Rightarrow>
               (case substitute_path_params str_of descriptors
                       (params, server_base_url cfg @ path) of
                  Inl e \<Rightarrow> Inl e
                | Inr (params', final_url) \<Rightarrow>
                    Inr (api_request cfg final_url (str_upper method)
                           (if str_upper method = ''GET'' then Some params' else None)
                           (if str_upper method \<noteq> ''GET'' then Some params' else None)
                           None))))"

definition dynamic_tool_func ::
  "settings \<Rightarrow> (json \<Rightarrow> string) \<Rightarrow> world \<Rightarrow> string \<Rightarrow> string \<Rightarrow> json \<Rightarrow> params option
   \<Rightarrow> exn + json" where
  "dynamic_tool_func cfg str_of w path method operation parameters =
     (let params = (case parameters of Some ps \<Rightarrow> ps | None \<Rightarrow> []) in
      case py_get operation ''parameters'' (JArr []) of
        Inl e \<Rightarrow> Inl e
      | Inr declared \<Rightarrow>
          (case py_iter declared of
             Inl e \<Rightarrow> Inl e
           | Inr descriptors \<Rightarrow>
               (case substitute_path_params str_of descriptors
                       (params, server_base_url cfg @ path) of
                  Inl e \<Rightarrow> Inl e
                | Inr (params', final_url) \<Rightarrow>
                    make_api_request cfg w final_url (str_upper method)
                      (if str_upper method = ''GET'' then Some params' else None)
                      (if str_upper method \<noteq> ''GET'' then Some params' else None)
                      None)))"

text \<open>
  What the closure is to do, read off the operation: the descriptors it declares, the
  names of those located in the path, each name once in the order of its first
  occurrence, and the substitution of one name's value into a URL.
\<close>

definition declared_parameters :: "json \<Rightarrow> json list" where
  "declared_parameters operation =
     (case py_get operation ''parameters'' (JArr []) of
        Inr declared \<Rightarrow> (case py_iter declared of Inr ds \<Rightarrow> ds | Inl e \<Rightarrow> [])
      | Inl e \<Rightarrow> [])"

definition path_param_name :: "json \<Rightarrow> string list" where
  "path_param_name descriptor =
     (case descriptor of
        JObj kvs \<Rightarrow>
          (if map_of kvs ''in'' = Some (JStr ''path'')
           then (case map_of kvs ''name'' of Some (JStr n) \<Rightarrow> [n] | _ \<Rightarrow> [])
           else [])
      | _ \<Rightarrow> [])"

definition path_param_names :: "json list \<Rightarrow> string list" where
  "path_param_names descriptors = concat (map path_param_name descriptors)"

fun first_occurrences :: "string list \<Rightarrow> string list" where
  "first_occurrences [] = []"
| "first_occurrences (n # ns) = n # first_occurrences (filter (\<lambda>m. m \<noteq> n) ns)"

definition substitute :: "(json \<Rightarrow> string) \<Rightarrow> params \<Rightarrow> string \<Rightarrow> string \<Rightarrow> string" where
  "substitute str_of params url pname =
     (case map_of params pname of
        Some v \<Rightarrow> str_replace (path_token pname) (str_of v) url
      | None \<Rightarrow> url)"

definition remaining_params :: "json \<Rightarrow> params \<Rightarrow> params" where
  "remaining_params operation params =
     filter (\<lambda>(k, v). k \<notin> set (path_param_names (declared_parameters operation))) params"

text \<open>An operation with the path parameter \<open>id\<close> and the query parameter \<open>verbose\<close>.\<close>

definition card_operation :: json where
  "card_operation =
     JObj [(''parameters'',
            JArr [JObj [(''name'', JStr ''id''), (''in'', JStr ''path'')],
                  JObj [(''name'', JStr ''verbose''), (''in'', JStr ''query'')]])]"

section \<open>Result envelopes\<close>

text \<open>
  Reading a returned value: \<open>field v k\<close> is the value under key \<open>k\<close> when \<open>v\<close> is
  a \<open>dict\<close> that has the key. A result envelope has a boolean \<open>success\<close> and a
  string \<open>description\<close>; a failed one has an \<open>error\<close> string and a status code
  and no data, a successful one has no \<open>error\<close> key and carries a text or the path
  of a saved file.
\<close>

definition field :: "json \<Rightarrow> string \<Rightarrow> json option" where
  "field j k = (case j of JObj kvs \<Rightarrow> map_of kvs k | _ \<Rightarrow> None)"

fun is_bool_field :: "json option \<Rightarrow> bool" where
  "is_bool_field (Some (JBool b)) = True"
| "is_bool_field other = False"

fun is_str_field :: "json option \<Rightarrow> bool" where
  "is_str_field (Some (JStr s)) = True"
| "is_str_field other = False"

fun is_num_field :: "json option \<Rightarrow> bool" where
  "is_num_field (Some (JNum n)) = True"
| "is_num_field other = False"

definition failure_envelope :: "json \<Rightarrow> int \<Rightarrow> bool" where
  "failure_envelope v code =
     (field v ''success'' = Some (JBool False)
      \<and> field v ''status_code'' = Some (JNum code)
      \<and> is_str_field (field v ''error'')
      \<and> is_str_field (field v ''description''))"

definition result_envelope :: "json \<Rightarrow> bool" where
  "result_envelope v =
     (is_bool_field (field v ''success'')
      \<and> is_str_field (field v ''description'')
      \<and> (field v ''success'' = Some (JBool False) \<longrightarrow>
            is_str_field (field v ''error'') \<and> is_num_field (field v ''status_code'')
            \<and> field v ''data'' = None)
      \<and> (field v ''success'' = Some (JBool True) \<longrightarrow>
            field v ''error'' = None
            \<and> (is_str_field (field v ''data'') \<or> is_str_field (field v ''path''))))"

text \<open>Worlds and responses for concrete runs: the server gives one fixed outcome.\<close>

definition world_of :: "exn + response \<Rightarrow> world" where
  "world_of outcome =
     \<lparr>http = (\<lambda>req. outcome), storage_exists = True, mkdir = (\<lambda>p. None),
      write_file = (\<lambda>p c. None), uuid4 = ''3f2b8c1e''\<rparr>"

definition response_of :: "int \<Rightarrow> string \<Rightarrow> string option \<Rightarrow> string \<Rightarrow> json option \<Rightarrow> response" where
  "response_of status reason ctype body parsed =
     \<lparr>resp_status = status, resp_reason = reason, resp_url = ''https://pad.crc.nd.edu/cards'',
      resp_content_type = ctype, resp_content = body, resp_text = body, resp_json = parsed\<rparr>"

definition json_list_response :: response where
  "json_list_response =
     response_of 200 ''OK'' (Some ''application/json'') ''[1, 2]'' (Some (JArr [JNum 1, JNum 2]))"

definition not_modified_response :: response where
  "not_modified_response = response_of 304 ''Not Modified'' None [] None"

section \<open>Images\<close>

text \<open>
  Python slicing \<open>xs[a:b]\<close> with integer bounds: a negative bound counts from the end,
  and bounds beyond the ends are cut to them.
\<close>

definition py_slice :: "'a list \<Rightarrow> int \<Rightarrow> int \<Rightarrow> 'a list" where
  "py_slice xs a b =
     (let n = int (length xs);
          lo = (if a < 0 then max 0 (n + a) else min a n);
          hi = (if b < 0 then max 0 (n + b) else min b n)
      in drop (nat lo) (take (nat hi) xs))"

text \<open>
  An image as PIL hands it out: mode and size are known once the file is opened; the
  pixels are decoded when first needed, and decoding may raise. \<open>img_data\<close> is what
  decoding gives: the rows of RGB pixels, or the exception.
\<close>

type_synonym pixel = "nat \<times> nat \<times> nat"

record pil_image =
  img_mode :: string
  img_width :: int
  img_height :: int
  img_data :: "exn + pixel list list"

fun channel :: "nat \<Rightarrow> pixel \<Rightarrow> nat" where
  "channel 0 (r, g, b) = r"
| "channel (Suc 0) (r, g, b) = g"
| "channel (Suc (Suc n)) (r, g, b) = b"

text \<open>\<open>arr[:, :, c]\<close>, flattened: the values of channel \<open>c\<close> over the region.\<close>

definition channel_data :: "pixel list list \<Rightarrow> nat \<Rightarrow> nat list" where
  "channel_data region_array c = map (channel c) (concat region_array)"

text \<open>
  The surroundings of the local tools: the file system, PIL and the storage directory.
  \<open>float_height resize_width height width\<close> is \<open>int(resize_width * (height / width))\<close>
  as the interpreter computes it in floating point.
\<close>

record local_env =
  path_exists :: "string \<Rightarrow> bool"
  open_image :: "string \<Rightarrow> exn + pil_image"
  float_height :: "int \<Rightarrow> int \<Rightarrow> int \<Rightarrow> int"
  resize_image :: "pil_image \<Rightarrow> int \<Rightarrow> int \<Rightarrow> exn + pil_image"
  encode_image :: "pil_image \<Rightarrow> exn + string"
  decode_bytes :: "string \<Rightarrow> exn + pil_image"
  save_image_file :: "pil_image \<Rightarrow> string \<Rightarrow> string \<Rightarrow> exn option"
  storage_present :: bool
  make_storage :: "string \<Rightarrow> exn option"
  new_uuid :: string

text \<open>
  The inner \<open>try\<close> of both analysis tools: open the file and, when the mode is not
  \<open>RGB\<close>, convert, which decodes the pixels.
\<close>

definition open_rgb :: "local_env \<Rightarrow> string \<Rightarrow> exn + pil_image" where
  "open_rgb env image_path =
     (case open_image env image_path of
        Inl e \<Rightarrow> Inl e
      | Inr img \<Rightarrow>
          if img_mode img \<noteq> ''RGB''
          then (case img_data img of
                  Inl e \<Rightarrow> Inl e
                | Inr rows \<Rightarrow> Inr (img\<lparr>img_mode := ''RGB''\<rparr>))
          else Inr img)"

section \<open>numpy reductions\<close>

text \<open>
  The reductions on the values of one channel, with exact real results. On an empty array
  \<open>mean\<close>, \<open>std\<close> and \<open>median\<close> give \<open>nan\<close>; \<open>min\<close>, \<open>max\<close> and \<open>argmax\<close>
  raise \<open>ValueError\<close>.
\<close>

definition np_mean :: "nat list \<Rightarrow> json" where
  "np_mean xs = (if xs = [] then JNaN else JFloat (real (sum_list xs) / real (length xs)))"

definition np_std :: "nat list \<Rightarrow> json" where
  "np_std xs =
     (if xs = [] then JNaN
      else let m = real (sum_list xs) / real (length xs)
           in JFloat (sqrt (sum_list (map (\<lambda>x. (real x - m)\<^sup>2) xs) / real (length xs))))"

fun np_min :: "nat list \<Rightarrow> exn + json" where
  "np_min [] = Inl (ValueError ''zero-size array to reduction operation minimum which has no identity'')"
| "np_min (x # xs) = Inr (JFloat (real (fold min xs x)))"

fun np_max :: "nat list \<Rightarrow> exn + json" where
  "np_max [] = Inl (ValueError ''zero-size array to reduction operation maximum which has no identity'')"
| "np_max (x # xs) = Inr (JFloat (real (fold max xs x)))"

definition np_median :: "nat list \<Rightarrow> json" where
  "np_median xs =
     (if xs = [] then JNaN
      else let s = sort xs; n = length xs
           in if odd n then JFloat (real (s ! (n div 2)))
              else JFloat ((real (s ! (n div 2 - 1)) + real (s ! (n div 2))) / 2))"

text \<open>
  \<open>np.unique(..., return_counts=True)\<close> followed by \<open>np.argmax(counts)\<close>: the smallest
  of the most frequent values.
\<close>

fun np_mode :: "nat list \<Rightarrow> exn + json" where
  "np_mode [] = Inl (ValueError ''attempt to get argmax of an empty sequence'')"
| "np_mode (x # xs) =
     (let values = sort (remdups (x # xs));
          best = fold (\<lambda>v b. if count_list (x # xs) b < count_list (x # xs) v then v else b)
                   (tl values) (hd values)
      in Inr (JFloat (real best)))"


section \<open>Analysis tools\<close>

definition quoted :: "string \<Rightarrow> string" where
  "quoted s = [CHR 0x27] @ s @ [CHR 0x27]"

fun str_join :: "string \<Rightarrow> string list \<Rightarrow> string" where
  "str_join sep [] = []"
| "str_join sep [x] = x"
| "str_join sep (x # y # ys) = x @ sep @ str_join sep (y # ys)"

text \<open>
  A bounding box is a \<open>dict\<close> from strings to integers, as the signature of
  \<open>compute_average_rgb\<close> declares it. \<open>bbox_repr\<close> is its rendering in an f-string.
\<close>

type_synonym bbox = "(string \<times> int) list"

definition bbox_keys :: "string list" where
  "bbox_keys = [''x1'', ''y1'', ''x2'', ''y2'']"

definition bbox_complete :: "bbox \<Rightarrow> bool" where
  "bbox_complete b = list_all (\<lambda>key. map_of b key \<noteq> None) bbox_keys"

definition bbox_item :: "bbox \<Rightarrow> string \<Rightarrow> exn + int" where
  "bbox_item b key = (case map_of b key of Some v \<Rightarrow> Inr v | None \<Rightarrow> Inl (KeyError key))"

definition bbox_coords :: "bbox \<Rightarrow> exn + int \<times> int \<times> int \<times> int" where
  "bbox_coords b =
     (case bbox_item b ''x1'' of Inl e \<Rightarrow> Inl e | Inr x1 \<Rightarrow>
      case bbox_item b ''y1'' of Inl e \<Rightarrow> Inl e | Inr y1 \<Rightarrow>
      case bbox_item b ''x2'' of Inl e \<Rightarrow> Inl e | Inr x2 \<Rightarrow>
      case bbox_item b ''y2'' of Inl e \<Rightarrow> Inl e | Inr y2 \<Rightarrow> Inr (x1, y1, x2, y2))"

definition bbox_repr :: "bbox \<Rightarrow> string" where
  "bbox_repr b =
     ''{'' @ str_join '', '' (map (\<lambda>(k, v). quoted k @ '': '' @ str_int v) b) @ ''}''"

text \<open>The envelope of a failed analysis call.\<close>

definition failure :: "string \<Rightarrow> string \<Rightarrow> json" where
  "failure err description =
     JObj [(''success'', JBool False), (''data'', JObj []), (''error'', JStr err),
           (''description'', JStr description)]"

text \<open>The test of \<open>compute_average_rgb\<close> on the coordinates against the image size.\<close>

definition bbox_rejected :: "int \<Rightarrow> int \<Rightarrow> int \<times> int \<times> int \<times> int \<Rightarrow> bool" where
  "bbox_rejected width height box =
     (case box of (x1, y1, x2, y2) \<Rightarrow>
        x1 < 0 \<or> y1 < 0 \<or> x2 > width \<or> y2 > height \<or> x1 \<ge> x2 \<or> y1 \<ge> y2)"

text \<open>
  \<open>img.crop\<close> decodes the image and cuts the box out. The model gives the pixels of a box
  that lies inside the image, the only boxes the tool lets through.
\<close>

definition crop :: "pil_image \<Rightarrow> int \<times> int \<times> int \<times> int \<Rightarrow> exn + pixel list list" where
  "crop img box =
     (case box of (x1, y1, x2, y2) \<Rightarrow>
        (case img_data img of
           Inl e \<Rightarrow> Inl e
         | Inr rows \<Rightarrow> Inr (map (\<lambda>row. py_slice row x1 x2) (py_slice rows y1 y2))))"

definition compute_average_rgb_body :: "local_env \<Rightarrow> bbox option \<Rightarrow> string \<Rightarrow> exn + json" where
  "compute_average_rgb_body env bbox image_path =
     (if \<not> path_exists env image_path then
        Inr (failure (''Image path does not exist: '' @ image_path)
               ''Failed to locate the specified image file.'')
      else if (case bbox of None \<Rightarrow> True | Some b \<Rightarrow> b = [] \<or> \<not> bbox_complete b) then
        Inr (failure (''Bounding box must contain '' @ quoted ''x1'' @ '', '' @ quoted ''y1''
                      @ '', '' @ quoted ''x2'' @ '', and '' @ quoted ''y2'' @ '' keys.'')
               ''Invalid bounding box specification.'')
      else case open_rgb env image_path of
        Inl e \<Rightarrow>
          Inr (failure (''Failed to open image: '' @ exn_str e)
                 ''Could not open or process the image file.'')
      | Inr img \<Rightarrow>
          (case bbox_coords (case bbox of Some b \<Rightarrow> b | None \<Rightarrow> []) of
             Inl e \<Rightarrow> Inl e
           | Inr (x1, y1, x2, y2) \<Rightarrow>
               if bbox_rejected (img_width img) (img_height img) (x1, y1, x2, y2) then
                 Inr (failure (''Invalid bounding box coordinates: ''
                               @ bbox_repr (case bbox of Some b \<Rightarrow> b | None \<Rightarrow> [])
                               @ '' for image size '' @ str_int (img_width img) @ ''x''
                               @ str_int (img_height img))
                        ''Bounding box coordinates are outside image dimensions or invalid.'')
               else case crop img (x1, y1, x2, y2) of
                 Inl e \<Rightarrow> Inl e
               | Inr arr \<Rightarrow>
                   Inr (JObj [(''success'', JBool True),
                              (''data'', JObj [(''avg_r'', np_mean (channel_data arr 0)),
                                               (''avg_g'', np_mean (channel_data arr 1)),
                                               (''avg_b'', np_mean (channel_data arr 2)),
                                               (''region_size'',
                                                JObj [(''width'', JNum (x2 - x1)),
                                                      (''height'', JNum (y2 - y1))])]),
                              (''error'', JStr []),
                              (''description'',
                               JStr (''Computed average RGB values for the specified bounding box (''
                                     @ str_int (x2 - x1) @ ''x'' @ str_int (y2 - y1)
                                     @ '' pixels).''))])))"

text \<open>The outer \<open>except Exception\<close>: whatever the body raises becomes an envelope.\<close>

definition compute_average_rgb :: "local_env \<Rightarrow> bbox option \<Rightarrow> string \<Rightarrow> exn + json" where
  "compute_average_rgb env bbox image_path =
     (case compute_average_rgb_body env bbox image_path of
        Inl e \<Rightarrow>
          Inr (failure (exn_str e) ''Failed to compute average RGB values due to an error.'')
      | Inr v \<Rightarrow> Inr v)"

text \<open>
  A region of \<open>analyze_image_regions\<close>: each of its keys may be absent. The statistics
  of one channel are entered in the order of the tests in the code; the first reduction
  that raises ends the computation.
\<close>

record region =
  region_name :: "string option"
  region_bbox :: "bbox option"
  region_metrics :: "string list option"

definition valid_metrics :: "string list" where
  "valid_metrics = [''avg'', ''std'', ''min'', ''max'', ''median'', ''mode'']"

fun collect :: "(string \<times> (exn + 'a)) list \<Rightarrow> exn + (string \<times> 'a) list" where
  "collect [] = Inr []"
| "collect ((k, Inl e) # rest) = Inl e"
| "collect ((k, Inr v) # rest) =
     (case collect rest of Inl e \<Rightarrow> Inl e | Inr kvs \<Rightarrow> Inr ((k, v) # kvs))"

definition channel_results :: "string list \<Rightarrow> nat list \<Rightarrow> exn + (string \<times> json) list" where
  "channel_results metrics channel_values =
     collect (filter (\<lambda>(k, r). k \<in> set metrics)
       [(''avg'', Inr (np_mean channel_values)),
        (''std'', Inr (np_std channel_values)),
        (''min'', np_min channel_values),
        (''max'', np_max channel_values),
        (''median'', Inr (np_median channel_values)),
        (''mode'', np_mode channel_values)])"

text \<open>The clamping of the coordinates to the image, in the order of the four assignments.\<close>

definition clamp_bbox :: "int \<Rightarrow> int \<Rightarrow> int \<times> int \<times> int \<times> int \<Rightarrow> int \<times> int \<times> int \<times> int" where
  "clamp_bbox width height box =
     (case box of (x1, y1, x2, y2) \<Rightarrow>
        (let x1' = max 0 (min x1 (width - 1));
             y1' = max 0 (min y1 (height - 1));
             x2' = max (x1' + 1) (min x2 width);
             y2' = max (y1' + 1) (min y2 height)
         in (x1', y1', x2', y2')))"

definition extract_region :: "pixel list list \<Rightarrow> int \<times> int \<times> int \<times> int \<Rightarrow> pixel list list" where
  "extract_region img_array box =
     (case box of (x1, y1, x2, y2) \<Rightarrow>
        map (\<lambda>row. py_slice row x1 x2) (py_slice img_array y1 y2))"

definition region_label :: "nat \<Rightarrow> region \<Rightarrow> string" where
  "region_label i r =
     (case region_name r of Some n \<Rightarrow> n | None \<Rightarrow> ''region_'' @ str_int (int i + 1))"

definition region_metric_names :: "region \<Rightarrow> string list" where
  "region_metric_names r =
     filter (\<lambda>m. m \<in> set valid_metrics)
       (case region_metrics r of Some ms \<Rightarrow> ms | None \<Rightarrow> [''avg''])"

text \<open>
  One pass of the loop over the regions: the entry stored under the region's name. The
  slice \<open>img_array[y1:y2, x1:x2]\<close> does not raise on integer bounds, so the handler
  around it is never entered and has no branch here.
\<close>

definition analyze_region ::
  "pixel list list \<Rightarrow> int \<Rightarrow> int \<Rightarrow> nat \<Rightarrow> region \<Rightarrow> exn + string \<times> json" where
  "analyze_region img_array width height i r =
     (let bbox = (case region_bbox r of Some b \<Rightarrow> b | None \<Rightarrow> []) in
      if \<not> bbox_complete bbox then
        Inr (region_label i r,
             JObj [(''error'', JStr ''Invalid bounding box specification''),
                   (''valid'', JBool False)])
      else case bbox_coords bbox of
        Inl e \<Rightarrow> Inl e
      | Inr box \<Rightarrow>
          (case clamp_bbox width height box of (x1, y1, x2, y2) \<Rightarrow>
             (let region_array = extract_region img_array (x1, y1, x2, y2) in
              case collect
                     [(''r'', channel_results (region_metric_names r) (channel_data region_array 0)),
                      (''g'', channel_results (region_metric_names r) (channel_data region_array 1)),
                      (''b'', channel_results (region_metric_names r) (channel_data region_array 2))]
              of
                Inl e \<Rightarrow> Inl e
              | Inr channels \<Rightarrow>
                  Inr (region_label i r,
                       JObj [(''bbox'', JObj [(''x1'', JNum x1), (''y1'', JNum y1),
                                              (''x2'', JNum x2), (''y2'', JNum y2)]),
                             (''size'', JObj [(''width'', JNum (x2 - x1)),
                                              (''height'', JNum (y2 - y1))]),
                             (''channels'', JObj (map (\<lambda>(k, kvs). (k, JObj kvs)) channels)),
                             (''valid'', JBool True)]))))"

text \<open>\<open>results[name] = entry\<close>: a key already present keeps its place.\<close>

fun dict_set :: "string \<Rightarrow> json \<Rightarrow> (string \<times> json) list \<Rightarrow> (string \<times> json) list" where
  "dict_set k v [] = [(k, v)]"
| "dict_set k v ((k', v') # rest) =
     (if k' = k then (k, v) # rest else (k', v') # dict_set k v rest)"

fun analyze_regions ::
  "pixel list list \<Rightarrow> int \<Rightarrow> int \<Rightarrow> nat \<Rightarrow> region list \<Rightarrow> (string \<times> json) list
   \<Rightarrow> exn + (string \<times> json) list" where
  "analyze_regions img_array width height i [] results = Inr results"
| "analyze_regions img_array width height i (r # rest) results =
     (case analyze_region img_array width height i r of
        Inl e \<Rightarrow> Inl e
      | Inr (name, entry) \<Rightarrow>
          analyze_regions img_array width height (Suc i) rest (dict_set name entry results))"

definition analyze_image_regions_body :: "local_env \<Rightarrow> string \<Rightarrow> region list \<Rightarrow> exn + json" where
  "analyze_image_regions_body env image_path regions =
     (if \<not> path_exists env image_path then
        Inr (failure (''Image path does not exist: '' @ image_path)
               ''Failed to locate the specified image file.'')
      else case open_rgb env image_path of
        Inl e \<Rightarrow>
          Inr (failure (''Failed to open image: '' @ exn_str e)
                 ''Could not open or process the image file.'')
      | Inr img \<Rightarrow>
          (case img_data img of
             Inl e \<Rightarrow> Inl e
           | Inr img_array \<Rightarrow>
               (case analyze_regions img_array (img_width img) (img_height img) 0 regions [] of
                  Inl e \<Rightarrow> Inl e
                | Inr results \<Rightarrow>
                    Inr (JObj [(''success'', JBool True),
                               (''data'', JObj results),
                               (''error'', JStr []),
                               (''description'',
                                JStr (''Analyzed '' @ str_int (int (length results))
                                      @ '' regions in the image.''))]))))"

definition analyze_image_regions :: "local_env \<Rightarrow> string \<Rightarrow> region list \<Rightarrow> exn + json" where
  "analyze_image_regions env image_path regions =
     (case analyze_image_regions_body env image_path regions of
        Inl e \<Rightarrow>
          Inr (failure (exn_str e) ''Failed to analyze image regions due to an error.'')
      | Inr v \<Rightarrow> Inr v)"


section \<open>File tools\<close>








text \<open>Concrete surroundings: one file with a 2 by 2 RGB image, nothing else.\<close>

definition sample_pixels :: "pixel list list" where
  "sample_pixels = [[(10, 20, 30), (50, 60, 70)], [(90, 100, 110), (130, 140, 150)]]"

definition sample_image :: pil_image where
  "sample_image =
     \<lparr>img_mode = ''RGB'', img_width = 2, img_height = 2, img_data = Inr sample_pixels\<rparr>"

definition sample_env :: local_env where
  "sample_env =
     \<lparr>path_exists = (\<lambda>p. p = ''card.png''),
      open_image = (\<lambda>p. if p = ''card.png'' then Inr sample_image
                         else Inl (OSError ''No such file or directory'')),
      float_height = (\<lambda>rw h w. rw * h div w),
      resize_image = (\<lambda>img w h. Inr (img\<lparr>img_width := w, img_height := h\<rparr>)),
      encode_image = (\<lambda>img. Inr ''PNG''),
      decode_bytes = (\<lambda>d. Inr sample_image),
      save_image_file = (\<lambda>img p f. None),
      storage_present = True,
      make_storage = (\<lambda>p. None),
      new_uuid = ''3f2b8c1e''\<rparr>"

text \<open>A region whose box lies outside a 2 by 2 image and is inverted.\<close>

definition stray_region :: region where
  "stray_region =
     \<lparr>region_name = None,
      region_bbox = Some [(''x1'', 5), (''y1'', - 3), (''x2'', 1), (''y2'', 0)],
      region_metrics = Some [''avg'', ''min'']\<rparr>"

text \<open>A region whose box lacks two of the four keys.\<close>

definition partial_region :: region where
  "partial_region =
     \<lparr>region_name = None, region_bbox = Some [(''x1'', 0), (''y1'', 0)],
      region_metrics = None\<rparr>"

text \<open>The entry stored for a region whose box is incomplete.\<close>

definition invalid_entry :: json where
  "invalid_entry =
     JObj [(''error'', JStr ''Invalid bounding box specification''), (''valid'', JBool False)]"





text \<open>
  The responses whose JSON body the executor hands back as it is: the status is none of
  404, 401 and 403 and lies outside 400-599, and the lower-cased \<open>Content-Type\<close> begins
  neither with \<open>image/\<close> nor with \<open>application/octet-stream\<close>.
\<close>

definition passes_through :: "response \<Rightarrow> bool" where
  "passes_through r =
     (resp_status r \<noteq> 404 \<and> resp_status r \<noteq> 401 \<and> resp_status r \<noteq> 403
      \<and> \<not> (400 \<le> resp_status r \<and> resp_status r < 600)
      \<and> \<not> startswith (str_lower (case resp_content_type r of Some c \<Rightarrow> c | None \<Rightarrow> []))
            ''image/''
      \<and> \<not> startswith (str_lower (case resp_content_type r of Some c \<Rightarrow> c | None \<Rightarrow> []))
            ''application/octet-stream'')"





section \<open>Strings: basic facts\<close>

lemma startswith_Cons:
  "startswith (c # cs) (d # ds) = (c = d \<and> startswith cs ds)"
  by (simp add: startswith_def)

lemma startswith_Nil [simp]: "startswith s []"
  by (simp add: startswith_def)

lemma startswith_Nil_left [simp]: "startswith [] p = (p = [])"
  by (auto simp add: startswith_def)

lemma startswith_iff: "startswith s p \<longleftrightarrow> (\<exists>r. s = p @ r)"
  unfolding startswith_def
  by (metis append_eq_conv_conj append_take_drop_id)

lemma str_in_iff: "str_in sub s \<longleftrightarrow> (\<exists>ps ss. s = ps @ sub @ ss)"
proof (induction s)
  case Nil
  then show ?case by auto
next
  case (Cons c cs)
  show ?case
  proof
    assume "str_in sub (c # cs)"
    then consider "startswith (c # cs) sub" | "str_in sub cs" by auto
    then show "\<exists>ps ss. c # cs = ps @ sub @ ss"
    proof cases
      case 1
      then obtain r where "c # cs = sub @ r" by (auto simp: startswith_iff)
      then have "c # cs = [] @ sub @ r" by simp
      then show ?thesis by blast
    next
      case 2
      then obtain ps ss where "cs = ps @ sub @ ss" using Cons.IH by blast
      then have "c # cs = (c # ps) @ sub @ ss" by simp
      then show ?thesis by blast
    qed
  next
    assume "\<exists>ps ss. c # cs = ps @ sub @ ss"
    then obtain ps ss where e: "c # cs = ps @ sub @ ss" by blast
    show "str_in sub (c # cs)"
    proof (cases ps)
      case Nil
      then have "startswith (c # cs) sub" using e by (auto simp: startswith_iff)
      then show ?thesis by simp
    next
      case (Cons p ps')
      then have "cs = ps' @ sub @ ss" using e by simp
      then show ?thesis using Cons.IH by auto
    qed
  qed
qed

lemma str_replace_char:
  "str_replace [a] [b] s = map (\<lambda>c. if c = a then b else c) s"
  by (induction s) (auto simp: startswith_Cons)

lemma str_replace_delete:
  "str_replace [a] [] s = filter (\<lambda>c. c \<noteq> a) s"
  by (induction s) (auto simp: startswith_Cons)

lemma separators_eq:
  "str_replace ''-'' ''_'' (str_replace ''}'' '''' (str_replace ''{'' ''''
     (str_replace ''/'' ''_'' (str_replace '' '' ''_'' s)))) = separators s"
  unfolding str_replace_char str_replace_delete separators_def
  by (induction s) auto

lemma collapse_once:
  "\<not> str_in ''___'' s \<Longrightarrow> str_replace ''__'' ''_'' s = collapse_underscores s"
proof (induction s rule: collapse_underscores.induct)
  case (1 a b cs)
  then show ?case
    by (cases cs) (auto simp: startswith_Cons)
qed (simp_all add: startswith_Cons)

lemma collapse_hd: "\<exists>r. collapse_underscores (c # cs) = c # r"
  by (induction "c # cs" arbitrary: c cs rule: collapse_underscores.induct) auto

lemma collapse_no_double: "\<not> str_in ''__'' (collapse_underscores s)"
proof (induction s rule: collapse_underscores.induct)
  case (1 a b cs)
  obtain r where r: "collapse_underscores (b # cs) = b # r"
    using collapse_hd by blast
  show ?case using 1 r by (auto simp: startswith_Cons)
qed (simp_all add: startswith_Cons)

lemma str_in_dropWhile: "str_in sub (dropWhile P s) \<Longrightarrow> str_in sub s"
proof -
  assume "str_in sub (dropWhile P s)"
  then obtain ps ss where "dropWhile P s = ps @ sub @ ss" by (auto simp: str_in_iff)
  then have "s = (takeWhile P s @ ps) @ sub @ ss"
    by (metis append.assoc takeWhile_dropWhile_id)
  then show ?thesis unfolding str_in_iff by blast
qed

lemma set_str_replace_double: "set (str_replace ''__'' ''_'' s) \<subseteq> set s"
  by (induction "''__''" "''_''" s rule: str_replace.induct)
     (auto simp: startswith_Cons dest: in_set_dropD)

lemma set_separators: "set (separators s) \<inter> set '' /{}-'' = {}"
  by (auto simp: separators_def)

lemma lstrip_not_startswith: "\<not> startswith (lstrip ''_'' s) ''_''"
proof (cases "lstrip ''_'' s")
  case Nil
  then show ?thesis by simp
next
  case (Cons c cs)
  then have "c \<noteq> CHR ''_''"
    unfolding lstrip_def using hd_dropWhile [of "\<lambda>c. c \<in> set ''_''" s] by auto
  then show ?thesis using Cons by (simp add: startswith_Cons)
qed

lemma filter_dropWhile_disjoint:
  "(\<And>x. Q x \<Longrightarrow> \<not> P x) \<Longrightarrow> filter P (dropWhile Q s) = filter P s"
  by (induction s) auto

lemma filter_lstrip_underscore:
  "filter (\<lambda>c. c \<noteq> CHR ''_'') (lstrip ''_'' s) = filter (\<lambda>c. c \<noteq> CHR ''_'') s"
  unfolding lstrip_def by (rule filter_dropWhile_disjoint) simp

lemma filter_collapse_once:
  "filter (\<lambda>c. c \<noteq> CHR ''_'') (str_replace ''__'' ''_'' s) = filter (\<lambda>c. c \<noteq> CHR ''_'') s"
proof (induction "''__''" "''_''" s rule: str_replace.induct)
  case 1
  then show ?case by simp
next
  case (2 c cs)
  show ?case
  proof (cases "startswith (c # cs) ''__''")
    case True
    then obtain r where r: "c # cs = ''__'' @ r"
      by (auto simp: startswith_iff)
    then have "drop (length ''__'') (c # cs) = r" by simp
    then show ?thesis using 2 True r by simp
  next
    case False
    then show ?thesis using 2 by simp
  qed
qed

lemma filter_separators:
  "filter (\<lambda>c. c \<noteq> CHR ''_'') (separators s) = filter (\<lambda>c. c \<notin> set '' /{}-_'') s"
  unfolding separators_def by (induction s) auto

lemma normalize_tool_name_letters:
  "filter (\<lambda>c. c \<noteq> CHR ''_'') (normalize_tool_name method path)
   = filter (\<lambda>c. c \<notin> set '' /{}-_'') (str_lower method @ '' '' @ path)"
proof -
  have "normalize_tool_name method path
        = lstrip ''_'' (str_replace ''__'' ''_'' (separators (str_lower method @ '' '' @ path)))"
    unfolding normalize_tool_name_def separators_eq ..
  then show ?thesis
    by (simp only: filter_lstrip_underscore filter_collapse_once filter_separators)
qed


text \<open>
  C1 (amended). The identifier contains no space, slash, brace or hyphen and does not begin
  with an underscore. Its characters other than underscores are, in order, those of the
  lower-cased method followed by those of the path as they are written, without the
  spaces, slashes, braces, hyphens and underscores: only the method is lower-cased, the
  letters of the path keep their case. When the string obtained after the character
  replacements has no run of three or more underscores, the identifier is the one the
  derivation describes (with the method alone lower-cased) and no two consecutive
  underscores remain in it.
\<close>

theorem normalize_tool_name_method_lower:
  "set (normalize_tool_name method path) \<inter> set '' /{}-'' = {}
   \<and> \<not> startswith (normalize_tool_name method path) ''_''
   \<and> filter (\<lambda>c. c \<noteq> CHR ''_'') (normalize_tool_name method path)
       = filter (\<lambda>c. c \<notin> set '' /{}-_'') (str_lower method) 
         @ filter (\<lambda>c. c \<notin> set '' /{}-_'') path
   \<and> (\<not> str_in ''___'' (separators (str_lower method @ '' '' @ path)) \<longrightarrow>
        normalize_tool_name method path = derive_name_method_lower method path
        \<and> \<not> str_in ''__'' (normalize_tool_name method path))"
proof -
  let ?t = "separators (str_lower method @ '' '' @ path)"
  have n: "normalize_tool_name method path = lstrip ''_'' (str_replace ''__'' ''_'' ?t)"
    unfolding normalize_tool_name_def separators_eq ..
  have "set (normalize_tool_name method path) \<subseteq> set ?t"
    unfolding n lstrip_def using set_dropWhileD set_str_replace_double by fastforce
  then have a: "set (normalize_tool_name method path) \<inter> set '' /{}-'' = {}"
    using set_separators [of "str_lower method @ '' '' @ path"] by blast
  have b: "\<not> startswith (normalize_tool_name method path) ''_''"
    unfolding n by (rule lstrip_not_startswith)
  have c: "normalize_tool_name method path = derive_name_method_lower method path
        \<and> \<not> str_in ''__'' (normalize_tool_name method path)"
    if h: "\<not> str_in ''___'' ?t"
  proof -
    have e: "normalize_tool_name method path = lstrip ''_'' (collapse_underscores ?t)"
      unfolding n using collapse_once [OF h] by simp
    have "\<not> str_in ''__'' (lstrip ''_'' (collapse_underscores ?t))"
      unfolding lstrip_def using str_in_dropWhile collapse_no_double by blast
    then show ?thesis using e by (simp add: derive_name_method_lower_def)
  qed
  have d: "filter (\<lambda>c. c \<noteq> CHR ''_'') (normalize_tool_name method path)
       = filter (\<lambda>c. c \<notin> set '' /{}-_'') (str_lower method)
         @ filter (\<lambda>c. c \<notin> set '' /{}-_'') path"
    using normalize_tool_name_letters [of "method" "path"] by simp
  have c': "\<not> str_in ''___'' ?t \<longrightarrow>
        normalize_tool_name method path = derive_name_method_lower method path
        \<and> \<not> str_in ''__'' (normalize_tool_name method path)"
    using c by (rule impI)
  show ?thesis
    using a b d c' by (intro conjI) assumption+
qed

theorem normalize_tool_name_method_lower_witness:
  "\<not> str_in ''___'' (separators (str_lower ''GET'' @ '' '' @ ''/pets/{petId}''))
   \<and> normalize_tool_name ''GET'' ''/pets/{petId}'' = ''get_pets_petId''
   \<and> derive_name_method_lower ''GET'' ''/pets/{petId}'' = ''get_pets_petId''
   \<and> \<not> str_in ''__'' ''get_pets_petId''
   \<and> filter (\<lambda>c. c \<noteq> CHR ''_'') (normalize_tool_name ''GET'' ''/A/-/b'') = ''getAb''"
  using normalize_tool_name_method_lower [of "''GET''" "''/pets/{petId}''"]
    normalize_tool_name_method_lower [of "''GET''" "''/A/-/b''"]
  by (simp add: separators_def str_lower_def lower_char_def upper_letters_def
      lower_letters_def startswith_def derive_name_method_lower_def lstrip_def)

text \<open>
  C1 as stated fails: the path keeps its upper-case letters, and a run of three
  underscores is shortened to two, not to one.
\<close>

theorem normalize_tool_name_counterexample:
  "normalize_tool_name ''GET'' ''/A/-/b'' \<noteq> derive_name_spec ''GET'' ''/A/-/b''
   \<and> str_lower (normalize_tool_name ''GET'' ''/A/-/b'') \<noteq> normalize_tool_name ''GET'' ''/A/-/b''
   \<and> str_in ''__'' (normalize_tool_name ''GET'' ''/A/-/b'')"
  by (simp add: normalize_tool_name_def derive_name_spec_def separators_def str_lower_def
      lower_char_def upper_letters_def lower_letters_def startswith_def lstrip_def)

section \<open>Endpoint filter: binary responses\<close>

lemma scan_responses_well_formed:
  "list_all well_formed_response rs \<Longrightarrow>
   scan_responses path rs =
     Inr (\<not> (list_ex is_binary_mime (concat (map response_mime_types rs))
              \<and> \<not> str_in ''download-image'' path))"
proof (induction rs)
  case Nil
  then show ?case by simp
next
  case (Cons r rs)
  then obtain fs where r: "r = JObj fs"
    by (cases r) (auto simp: well_formed_response_def)
  show ?case
  proof (cases "map_of fs ''content''")
    case None
    then have "response_mime_types r = []" and "py_get r ''content'' (JObj []) = Inr (JObj [])"
      using r by (simp_all add: response_mime_types_def)
    then show ?thesis using Cons by simp
  next
    case (Some c)
    then obtain cs where c: "c = JObj cs"
      using Cons.prems r by (cases c) (auto simp: well_formed_response_def)
    have "response_mime_types r = map fst cs" and "py_get r ''content'' (JObj []) = Inr (JObj cs)"
      using r Some c by (simp_all add: response_mime_types_def)
    then show ?thesis using Cons by (auto simp: list_ex_iff)
  qed
qed

text \<open>
  C4. An operation that declares a response content type beginning with \<open>image/\<close>,
  \<open>application/octet-stream\<close> or \<open>application/pdf\<close> is rejected when its path
  does not contain \<open>download-image\<close>, and accepted when the path contains it and no
  excluded pattern occurs in the lower-cased path.
\<close>

theorem should_register_endpoint_binary:
  assumes "well_formed_operation operation" and "declares_binary operation"
  shows "(\<not> str_in ''download-image'' path \<longrightarrow>
            should_register_endpoint cfg path method operation = Inr False)
       \<and> (str_in ''download-image'' path \<and> \<not> excluded_path cfg path \<longrightarrow>
            should_register_endpoint cfg path method operation = Inr True)"
proof -
  from assms(2) obtain fs rs where
    op: "operation = JObj fs" and rs: "map_of fs ''responses'' = Some (JObj rs)"
    by (auto simp: declares_binary_def declared_mime_types_def
        split: json.splits option.splits)
  have wf: "list_all well_formed_response (map snd rs)"
    using assms(1) op rs by (simp add: well_formed_operation_def list_all_iff)
  have bin: "list_ex is_binary_mime (concat (map response_mime_types (map snd rs)))"
    using assms(2) op rs by (simp add: declares_binary_def declared_mime_types_def)
  show ?thesis
    using scan_responses_well_formed [OF wf, of path] bin op rs
    by (simp add: should_register_endpoint_def excluded_path_def)
qed

theorem should_register_endpoint_binary_witness:
  "well_formed_operation image_operation \<and> declares_binary image_operation
   \<and> should_register_endpoint default_settings ''/cards/{id}/image'' ''get'' image_operation
       = Inr False
   \<and> should_register_endpoint default_settings ''/cards/{id}/download-image'' ''get''
       image_operation = Inr True"
proof -
  have w: "well_formed_operation image_operation"
    by (simp add: well_formed_operation_def well_formed_response_def image_operation_def)
  have d: "declares_binary image_operation"
    by (simp add: declares_binary_def declared_mime_types_def response_mime_types_def
        image_operation_def is_binary_mime_def startswith_def)
  have n: "\<not> str_in ''download-image'' ''/cards/{id}/image''"
    by (simp add: startswith_def)
  have m: "str_in ''download-image'' ''/cards/{id}/download-image''"
    by (simp add: startswith_def)
  have x: "\<not> excluded_path default_settings ''/cards/{id}/download-image''"
    by (simp add: excluded_path_def default_settings_def startswith_def str_lower_def
        lower_char_def upper_letters_def lower_letters_def)
  show ?thesis
    using should_register_endpoint_binary [OF w d, of "''/cards/{id}/image''" default_settings "''get''"]
      should_register_endpoint_binary [OF w d, of "''/cards/{id}/download-image''" default_settings "''get''"]
      w d n m x by blast
qed

section \<open>Registration pass: identifiers\<close>

lemma register_methods_names:
  "register_methods cfg str_of path methods st = Inr st' \<Longrightarrow>
   tool_names st' = tool_names st @ derived_names (eligible_methods cfg path methods)
   \<and> registered_count st' = registered_count st + length (eligible_methods cfg path methods)"
proof (induction methods arbitrary: st)
  case Nil
  then show ?case by (simp add: eligible_methods_def derived_names_def)
next
  case (Cons mo rest)
  obtain meth oper where mo: "mo = (meth, oper)" by (cases mo)
  show ?case
  proof (cases "str_lower meth \<in> set http_methods")
    case False
    then have "register_methods cfg str_of path rest st = Inr st'"
      using Cons.prems mo by simp
    from Cons.IH [OF this] show ?thesis
      using False mo by (simp add: eligible_methods_def)
  next
    case True
    show ?thesis
    proof (cases "should_register_endpoint cfg path meth oper")
      case (Inl e)
      then show ?thesis using Cons.prems mo True by simp
    next
      case (Inr b)
      show ?thesis
      proof (cases b)
        case False
        then have "register_methods cfg str_of path rest
                     (st\<lparr>skipped_count := skipped_count st + 1\<rparr>) = Inr st'"
          using Cons.prems mo True Inr by simp
        from Cons.IH [OF this] show ?thesis
          using False Inr mo by (simp add: eligible_methods_def tool_names_def)
      next
        case b: True
        then obtain summary description where
          r: "register_methods cfg str_of path rest
               (st\<lparr>mcp_tools := mcp_tools st @
                     [\<lparr>tool_name = normalize_tool_name meth path,
                       tool_description =
                         Some (make_docstring str_of summary description meth path),
                       tool_func = Dynamic path meth oper\<rparr>],
                   registered_count := registered_count st + 1\<rparr>) = Inr st'"
          using Cons.prems mo True Inr by (auto split: sum.splits)
        from Cons.IH [OF this] show ?thesis
          using b Inr mo True by (simp add: eligible_methods_def tool_names_def derived_names_def)
      qed
    qed
  qed
qed

lemma register_paths_names:
  "register_paths cfg str_of items st = Inr st' \<Longrightarrow>
   tool_names st' = tool_names st @ derived_names (concat (map (\<lambda>(path, path_item).
       case path_item of JObj methods \<Rightarrow> eligible_methods cfg path methods | _ \<Rightarrow> []) items))
   \<and> registered_count st' = registered_count st + length (concat (map (\<lambda>(path, path_item).
       case path_item of JObj methods \<Rightarrow> eligible_methods cfg path methods | _ \<Rightarrow> []) items))"
proof (induction items arbitrary: st)
  case Nil
  then show ?case by (simp add: derived_names_def)
next
  case (Cons pi rest)
  obtain path path_item where pi: "pi = (path, path_item)" by (cases pi)
  show ?case
  proof (cases "truthy path_item")
    case False
    then have r: "register_paths cfg str_of rest st = Inr st'"
      using Cons.prems pi by simp
    have "(case path_item of JObj methods \<Rightarrow> eligible_methods cfg path methods | _ \<Rightarrow> []) = []"
      using False by (cases path_item) (auto simp: eligible_methods_def)
    then show ?thesis using Cons.IH [OF r] pi by simp
  next
    case True
    then obtain methods st1 where
      m: "path_item = JObj methods" and
      s1: "register_methods cfg str_of path methods st = Inr st1" and
      r: "register_paths cfg str_of rest st1 = Inr st'"
      using Cons.prems pi by (cases path_item) (auto split: sum.splits)
    show ?thesis
      using register_methods_names [OF s1] Cons.IH [OF r] pi m
      by (simp add: derived_names_def)
  qed
qed

text \<open>
  C2 (amended). When the pass completes, every operation the filter accepts has been
  registered exactly once, in document order, under \<open>normalize_tool_name method path\<close>,
  which depends on the (method, path) pair alone. The pass makes no collision check: the
  registered identifiers are pairwise distinct exactly when the derived names of the
  accepted operations (and the names already registered) are.
\<close>

theorem registered_names_derived:
  assumes "register_openapi_endpoints_as_tools cfg str_of mcp spec = Inr st"
  shows "tool_names st = map tool_name mcp @ derived_names (eligible_operations cfg spec)
       \<and> registered_count st = length (eligible_operations cfg spec)
       \<and> (distinct (tool_names st) \<longleftrightarrow>
            distinct (map tool_name mcp @ derived_names (eligible_operations cfg spec)))"
proof -
  from assms obtain paths items where
    p: "py_get spec ''paths'' (JObj []) = Inr paths" and i: "paths = JObj items" and
    r: "register_paths cfg str_of items
          \<lparr>mcp_tools = mcp, registered_count = 0, skipped_count = 0\<rparr> = Inr st"
    unfolding register_openapi_endpoints_as_tools_def
    by (cases "py_get spec ''paths'' (JObj [])"; cases "projr (py_get spec ''paths'' (JObj []))")
       (auto split: sum.splits)
  have e: "eligible_operations cfg spec = concat (map (\<lambda>(path, path_item).
       case path_item of JObj methods \<Rightarrow> eligible_methods cfg path methods | _ \<Rightarrow> []) items)"
    using p i by (simp add: eligible_operations_def)
  show ?thesis
    using register_paths_names [OF r] unfolding e [symmetric]
    by (simp add: tool_names_def)
qed

theorem registered_names_derived_witness:
  "map_sum id tool_names
     (register_openapi_endpoints_as_tools default_settings scalar_str [] colliding_document)
     = Inr (derived_names (eligible_operations default_settings colliding_document))"
proof -
  have "\<exists>st. register_openapi_endpoints_as_tools default_settings scalar_str []
          colliding_document = Inr st"
    by (simp add: register_openapi_endpoints_as_tools_def colliding_document_def
        http_methods_def str_lower_def lower_char_def upper_letters_def lower_letters_def
        should_register_endpoint_def default_settings_def startswith_def)
  then obtain st where
    s: "register_openapi_endpoints_as_tools default_settings scalar_str [] colliding_document
          = Inr st"
    by blast
  from registered_names_derived [OF s] show ?thesis
    using s by simp
qed

text \<open>
  C2 as stated fails: two distinct accepted operations are registered under one
  identifier, and the pass completes having counted both.
\<close>

theorem registered_names_collide:
  "map_sum id tool_names
     (register_openapi_endpoints_as_tools default_settings scalar_str [] colliding_document)
     = Inr [''get_card_types'', ''get_card_types'']
   \<and> map_sum id registered_count
     (register_openapi_endpoints_as_tools default_settings scalar_str [] colliding_document)
     = Inr 2
   \<and> eligible_operations default_settings colliding_document
     = [(''get'', ''/card-types''), (''get'', ''/card_types'')]"
  by (simp add: register_openapi_endpoints_as_tools_def colliding_document_def
      http_methods_def str_lower_def lower_char_def upper_letters_def lower_letters_def
      should_register_endpoint_def default_settings_def startswith_def tool_names_def
      normalize_tool_name_def lstrip_def eligible_operations_def eligible_methods_def)

section \<open>Registration pass: documents without paths\<close>

text \<open>
  C9 (amended). When the fetched document is falsy (\<open>null\<close>, \<open>false\<close>, zero, an
  empty string, array or object) or is an object without a \<open>paths\<close> key, the
  registration pass completes and registers no dynamic tool: the registry holds the
  static ontology tool after the tools it held before.
\<close>

theorem register_api_tools_without_paths:
  assumes "\<not> truthy spec \<or> (\<exists>kvs. spec = JObj kvs \<and> ''paths'' \<notin> fst ` set kvs)"
  shows "register_api_tools cfg str_of mcp (Some spec) = Inr (mcp @ [download_ontology_tool])"
proof (cases "truthy spec")
  case False
  then show ?thesis by (simp add: register_api_tools_def)
next
  case True
  then obtain kvs where k: "spec = JObj kvs" and n: "''paths'' \<notin> fst ` set kvs"
    using assms by blast
  have "map_of kvs ''paths'' = None"
    using n by (simp add: map_of_eq_None_iff)
  then have "register_openapi_endpoints_as_tools cfg str_of (mcp @ [download_ontology_tool]) spec
      = Inr \<lparr>mcp_tools = mcp @ [download_ontology_tool], registered_count = 0, skipped_count = 0\<rparr>"
    using k by (simp add: register_openapi_endpoints_as_tools_def)
  then show ?thesis using True by (simp add: register_api_tools_def)
qed

theorem register_api_tools_without_paths_witness:
  "truthy document_without_paths
   \<and> register_api_tools default_settings scalar_str [] (Some document_without_paths)
       = Inr [download_ontology_tool]
   \<and> \<not> truthy (JArr [])
   \<and> register_api_tools default_settings scalar_str [] (Some (JArr []))
       = Inr [download_ontology_tool]"
proof -
  have a: "\<not> truthy document_without_paths
     \<or> (\<exists>kvs. document_without_paths = JObj kvs \<and> ''paths'' \<notin> fst ` set kvs)"
    by (simp add: document_without_paths_def)
  have b: "\<not> truthy (JArr []) \<or> (\<exists>kvs. JArr [] = JObj kvs \<and> ''paths'' \<notin> fst ` set kvs)"
    by simp
  show ?thesis
    using register_api_tools_without_paths [OF a, of default_settings scalar_str "[]"]
      register_api_tools_without_paths [OF b, of default_settings scalar_str "[]"]
    by (simp add: document_without_paths_def)
qed

text \<open>
  C9 as stated fails: a non-empty array, a non-empty string, and an object whose
  \<open>paths\<close> is not a mapping make the pass raise \<open>AttributeError\<close>.
\<close>

theorem register_api_tools_raises:
  "register_api_tools default_settings scalar_str [] (Some (JArr [JStr ''paths'']))
     = Inl (AttributeError ''list'' ''get'')
   \<and> register_api_tools default_settings scalar_str [] (Some (JStr ''not found''))
     = Inl (AttributeError ''str'' ''get'')
   \<and> register_api_tools default_settings scalar_str [] (Some (JObj [(''paths'', JArr [])]))
     = Inl (AttributeError ''list'' ''items'')"
  by (simp add: register_api_tools_def register_openapi_endpoints_as_tools_def)

section \<open>Request closure\<close>

lemma letters_disjoint: "set upper_letters \<inter> set lower_letters = {}"
  by (simp add: upper_letters_def lower_letters_def)

lemma upper_char_idem: "upper_char (upper_char c) = upper_char c"
proof (cases "map_of (zip lower_letters upper_letters) c")
  case None
  then show ?thesis by (simp add: upper_char_def)
next
  case (Some d)
  then have "(c, d) \<in> set (zip lower_letters upper_letters)"
    by (rule map_of_SomeD)
  then have "d \<in> set upper_letters"
    by (rule set_zip_rightD)
  then have "d \<notin> set lower_letters"
    using letters_disjoint by blast
  moreover have "map fst (zip lower_letters upper_letters) = lower_letters"
    by (rule map_fst_zip) (simp add: upper_letters_def lower_letters_def)
  ultimately have "d \<notin> fst ` set (zip lower_letters upper_letters)"
    by (metis set_map)
  then have "map_of (zip lower_letters upper_letters) d = None"
    by (simp add: map_of_eq_None_iff)
  then show ?thesis using Some by (simp add: upper_char_def)
qed

lemma str_upper_idem: "str_upper (str_upper s) = str_upper s"
  by (simp add: str_upper_def upper_char_idem)

lemma map_of_filter_key:
  "map_of (filter (\<lambda>(k, v). P k) ps) n = (if P n then map_of ps n else None)"
  by (induction ps) auto

lemma map_of_None_filter:
  "map_of ps n = None \<Longrightarrow> filter (\<lambda>(k, v). k \<notin> insert n S) ps = filter (\<lambda>(k, v). k \<notin> S) ps"
  by (induction ps) (auto split: if_splits)

lemma substitute_path_params_inv:
  "substitute_path_params str_of ds (filter (\<lambda>(k, v). k \<notin> S) ps0, url) = Inr (ps', url') \<Longrightarrow>
   ps' = filter (\<lambda>(k, v). k \<notin> S \<union> set (path_param_names ds)) ps0
   \<and> url' = foldl (substitute str_of ps0) url
              (first_occurrences (filter (\<lambda>n. n \<notin> S) (path_param_names ds)))"
proof (induction ds arbitrary: S url)
  case Nil
  then show ?case by (simp add: path_param_names_def)
next
  case (Cons d ds)
  let ?ps = "filter (\<lambda>(k, v). k \<notin> S) ps0"
  from Cons.prems obtain kvs where d: "d = JObj kvs"
    by (cases d) auto
  show ?case
  proof (cases "map_of kvs ''in'' = Some (JStr ''path'')")
    case False
    then have n: "path_param_name d = []"
      using d by (simp add: path_param_name_def)
    have "substitute_path_params str_of ds (?ps, url) = Inr (ps', url')"
      using Cons.prems d False by (auto split: option.splits)
    from Cons.IH [OF this] show ?thesis
      using n by (simp add: path_param_names_def)
  next
    case True
    then obtain nm where nm: "map_of kvs ''name'' = Some nm"
      using Cons.prems d by (cases "map_of kvs ''name''") auto
    show ?thesis
    proof (cases "\<exists>s. nm = JStr s")
      case False
      then have n: "path_param_name d = []"
        using d True nm by (cases nm) (auto simp: path_param_name_def)
      have "substitute_path_params str_of ds (?ps, url) = Inr (ps', url')"
        using Cons.prems d True nm False by (cases nm) auto
      from Cons.IH [OF this] show ?thesis
        using n by (simp add: path_param_names_def)
    next
      case s: True
      then obtain pname where p: "nm = JStr pname" by blast
      have n: "path_param_name d = [pname]"
        using d True nm p by (simp add: path_param_name_def)
      show ?thesis
      proof (cases "map_of ?ps pname")
        case None
        then have r: "substitute_path_params str_of ds (?ps, url) = Inr (ps', url')"
          using Cons.prems d True nm p by simp
        have e: "?ps = filter (\<lambda>(k, v). k \<notin> insert pname S) ps0"
        proof (cases "pname \<in> S")
          case True
          then show ?thesis by (simp add: insert_absorb)
        next
          case False
          then have "map_of ps0 pname = None"
            using None by (simp add: map_of_filter_key)
          then show ?thesis by (rule map_of_None_filter [symmetric])
        qed
        have u: "foldl (substitute str_of ps0) url
                   (first_occurrences (filter (\<lambda>n. n \<notin> S) (pname # path_param_names ds)))
               = foldl (substitute str_of ps0) url
                   (first_occurrences (filter (\<lambda>n. n \<notin> insert pname S) (path_param_names ds)))"
        proof (cases "pname \<in> S")
          case True
          then have "filter (\<lambda>n. n \<notin> insert pname S) (path_param_names ds)
                   = filter (\<lambda>n. n \<notin> S) (path_param_names ds)"
            by (simp add: insert_absorb)
          then show ?thesis using True by simp
        next
          case False
          then have "map_of ps0 pname = None"
            using None by (simp add: map_of_filter_key)
          then show ?thesis
            using False by (simp add: substitute_def conj_commute)
        qed
        from Cons.IH [OF r [unfolded e]] show ?thesis
          using n u by (simp add: path_param_names_def)
      next
        case (Some v)
        then have notin: "pname \<notin> S" and v: "map_of ps0 pname = Some v"
          by (auto simp: map_of_filter_key split: if_splits)
        have e: "dict_pop pname ?ps = filter (\<lambda>(k, v). k \<notin> insert pname S) ps0"
          by (auto simp: dict_pop_def intro!: filter_cong)
        have r: "substitute_path_params str_of ds
                   (filter (\<lambda>(k, v). k \<notin> insert pname S) ps0,
                    str_replace (path_token pname) (str_of v) url) = Inr (ps', url')"
          using Cons.prems d True nm p Some e by simp
        from Cons.IH [OF r] show ?thesis
          using n notin v by (simp add: path_param_names_def substitute_def conj_commute)
      qed
    qed
  qed
qed


text \<open>
  C3. When the closure sends a request, every parameter declared with location
  \<open>path\<close> whose name is in the supplied mapping has been removed from the mapping and
  the string form of its value substituted into the URL at \<open>{name}\<close>, in the order of
  declaration; the remaining parameters are the query parameters when the upper-cased
  method is \<open>GET\<close> and the JSON body otherwise, and the other channel is empty. The
  closure's result is the executor's on exactly this request.
\<close>

theorem closure_request_channels:
  assumes "closure_request cfg str_of path method operation parameters = Inr req"
  shows "req_url req =
           foldl (substitute str_of (case parameters of Some ps \<Rightarrow> ps | None \<Rightarrow> []))
             (server_base_url cfg @ path)
             (first_occurrences (path_param_names (declared_parameters operation)))
       \<and> req_method req = str_upper method
       \<and> (str_upper method = ''GET'' \<longrightarrow>
            req_params req =
              Some (remaining_params operation (case parameters of Some ps \<Rightarrow> ps | None \<Rightarrow> []))
            \<and> req_json req = None)
       \<and> (str_upper method \<noteq> ''GET'' \<longrightarrow>
            req_json req =
              Some (remaining_params operation (case parameters of Some ps \<Rightarrow> ps | None \<Rightarrow> []))
            \<and> req_params req = None)
       \<and> (req_params req = None \<or> req_json req = None)
       \<and> (\<forall>w. dynamic_tool_func cfg str_of w path method operation parameters =
              (case (case http w req of
                       Inl e \<Rightarrow> Inl e
                     | Inr r \<Rightarrow> handle_response cfg w (req_url req) r) of
                 Inl e \<Rightarrow> handle_exception (req_url req) (req_timeout req) e
               | Inr result \<Rightarrow> Inr result))
       \<and> set (path_param_names (declared_parameters operation))
             \<inter> fst ` set (remaining_params operation
                            (case parameters of Some ps \<Rightarrow> ps | None \<Rightarrow> [])) = {}"
proof -
  let ?ps = "case parameters of Some ps \<Rightarrow> ps | None \<Rightarrow> []"
  from assms obtain declared ds ps' url where
    g: "py_get operation ''parameters'' (JArr []) = Inr declared" and
    i: "py_iter declared = Inr ds" and
    s: "substitute_path_params str_of ds (?ps, server_base_url cfg @ path) = Inr (ps', url)" and
    r: "req = api_request cfg url (str_upper method)
              (if str_upper method = ''GET'' then Some ps' else None)
              (if str_upper method \<noteq> ''GET'' then Some ps' else None) None"
    unfolding closure_request_def Let_def
    by (auto split: sum.splits prod.splits)
  have d: "declared_parameters operation = ds"
    using g i by (simp add: declared_parameters_def)
  have "?ps = filter (\<lambda>(k, v). k \<notin> {}) ?ps"
    by simp
  with s have "substitute_path_params str_of ds
      (filter (\<lambda>(k, v). k \<notin> {}) ?ps, server_base_url cfg @ path) = Inr (ps', url)"
    by simp
  from substitute_path_params_inv [OF this]
  have p: "ps' = remaining_params operation ?ps"
    and u: "url = foldl (substitute str_of ?ps) (server_base_url cfg @ path)
                   (first_occurrences (path_param_names ds))"
    using d by (simp_all add: remaining_params_def)
  have k: "set (path_param_names (declared_parameters operation))
             \<inter> fst ` set (remaining_params operation ?ps) = {}"
    by (auto simp: remaining_params_def)
  have l: "dynamic_tool_func cfg str_of w path method operation parameters =
              (case (case http w req of
                       Inl e \<Rightarrow> Inl e
                     | Inr r \<Rightarrow> handle_response cfg w (req_url req) r) of
                 Inl e \<Rightarrow> handle_exception (req_url req) (req_timeout req) e
               | Inr result \<Rightarrow> Inr result)" for w
  proof -
    have ru: "req_url req = url"
      using r by (simp add: api_request_def)
    have "dynamic_tool_func cfg str_of w path method operation parameters =
            make_api_request cfg w url (str_upper method)
              (if str_upper method = ''GET'' then Some ps' else None)
              (if str_upper method \<noteq> ''GET'' then Some ps' else None) None"
      using g i s by (simp add: dynamic_tool_func_def)
    then show ?thesis
      by (simp only: make_api_request_def Let_def r [symmetric] ru)
  qed
  have c: "req_url req =
           foldl (substitute str_of ?ps) (server_base_url cfg @ path)
             (first_occurrences (path_param_names (declared_parameters operation)))
       \<and> req_method req = str_upper method
       \<and> (str_upper method = ''GET'' \<longrightarrow>
            req_params req = Some (remaining_params operation ?ps) \<and> req_json req = None)
       \<and> (str_upper method \<noteq> ''GET'' \<longrightarrow>
            req_json req = Some (remaining_params operation ?ps) \<and> req_params req = None)
       \<and> (req_params req = None \<or> req_json req = None)"
    using r p u d by (simp add: api_request_def str_upper_idem)
  have l': "\<forall>w. dynamic_tool_func cfg str_of w path method operation parameters =
              (case (case http w req of
                       Inl e \<Rightarrow> Inl e
                     | Inr r \<Rightarrow> handle_response cfg w (req_url req) r) of
                 Inl e \<Rightarrow> handle_exception (req_url req) (req_timeout req) e
               | Inr result \<Rightarrow> Inr result)"
    using l by (rule allI)
  show ?thesis
    using c l' k by - (elim conjE, intro conjI, assumption+)
qed


theorem closure_request_channels_witness:
  "closure_request default_settings scalar_str ''/cards/{id}'' ''get'' card_operation
     (Some [(''id'', JNum 7), (''verbose'', JBool True)])
   = Inr \<lparr>req_method = ''GET'', req_url = ''https://pad.crc.nd.edu/cards/7'',
          req_params = Some [(''verbose'', JBool True)], req_json = None,
          req_headers = [], req_timeout = 30\<rparr>
   \<and> foldl (substitute scalar_str [(''id'', JNum 7), (''verbose'', JBool True)])
         (server_base_url default_settings @ ''/cards/{id}'')
         (first_occurrences (path_param_names (declared_parameters card_operation)))
       = ''https://pad.crc.nd.edu/cards/7''
   \<and> remaining_params card_operation [(''id'', JNum 7), (''verbose'', JBool True)]
       = [(''verbose'', JBool True)]"
proof -
  have e: "closure_request default_settings scalar_str ''/cards/{id}'' ''get'' card_operation
     (Some [(''id'', JNum 7), (''verbose'', JBool True)])
   = Inr \<lparr>req_method = ''GET'', req_url = ''https://pad.crc.nd.edu/cards/7'',
          req_params = Some [(''verbose'', JBool True)], req_json = None,
          req_headers = [], req_timeout = 30\<rparr>"
    by (simp add: closure_request_def card_operation_def default_settings_def api_request_def
        get_headers_def str_upper_def upper_char_def upper_letters_def lower_letters_def
        dict_pop_def path_token_def startswith_def str_int_def digit_char_def)
  have g: "str_upper ''get'' = ''GET''"
    by (simp add: str_upper_def upper_char_def upper_letters_def lower_letters_def)
  from closure_request_channels [OF e] show ?thesis
    using e g by simp
qed

section \<open>HTTP executor: results\<close>

lemma raise_for_status_HTTPError:
  "raise_for_status r = Some e \<Longrightarrow> \<exists>m. e = HTTPError m"
  by (auto simp: raise_for_status_def split: if_splits)

lemma raise_for_status_range:
  "400 \<le> resp_status r \<Longrightarrow> resp_status r < 600 \<Longrightarrow> \<exists>m. raise_for_status r = Some (HTTPError m)"
  by (auto simp: raise_for_status_def)

lemma handle_exception_envelope:
  "handle_exception url t e = Inr v \<Longrightarrow> result_envelope v"
  by (cases e) (auto simp: result_envelope_def field_def)

lemma save_binary_envelope:
  "save_binary cfg w ct r = Inr v \<Longrightarrow> result_envelope v"
  unfolding save_binary_def Let_def
  by (auto simp: result_envelope_def field_def split: option.splits sum.splits if_splits list.splits)

lemma handle_response_envelope:
  "handle_response cfg w url r = Inr v \<Longrightarrow> resp_json r = Some v \<or> result_envelope v"
  unfolding handle_response_def Let_def
  by (auto simp: result_envelope_def field_def dest: save_binary_envelope
      split: option.splits if_splits)

lemma raise_for_status_None_iff:
  "raise_for_status r = None \<longleftrightarrow> \<not> (400 \<le> resp_status r \<and> resp_status r < 600)"
  by (auto simp: raise_for_status_def)

lemma handle_response_on_passes_through:
  assumes "passes_through r"
  shows "handle_response cfg w url r =
           (case resp_json r of
              Some j \<Rightarrow> Inr j
            | None \<Rightarrow>
                Inr (JObj [(''success'', JBool True),
                           (''data'', JStr (resp_text r)),
                           (''content_type'',
                            JStr (str_lower (case resp_content_type r of
                                               Some c \<Rightarrow> c | None \<Rightarrow> []))),
                           (''description'', JStr ''Response is not JSON data'')]))"
proof -
  have "raise_for_status r = None"
    using assms by (simp add: raise_for_status_None_iff passes_through_def)
  then show ?thesis
    using assms by (simp add: handle_response_def passes_through_def Let_def)
qed

lemma handle_response_verbatim:
  "passes_through r \<Longrightarrow> resp_json r = Some j \<Longrightarrow> handle_response cfg w url r = Inr j"
  by (simp add: handle_response_on_passes_through)

lemma handle_response_passes_through:
  assumes "handle_response cfg w url r = Inr v"
  shows "(passes_through r \<and> resp_json r = Some v) \<or> result_envelope v"
proof (cases "passes_through r")
  case True
  show ?thesis
  proof (cases "resp_json r")
    case None
    then have "result_envelope v"
      using assms handle_response_on_passes_through [OF True, of cfg w url]
      by (auto simp: result_envelope_def field_def)
    then show ?thesis by (rule disjI2)
  next
    case (Some j)
    then have "v = j"
      using assms handle_response_verbatim [OF True Some, of cfg w url] by simp
    then show ?thesis using True Some by simp
  qed
next
  case False
  have "resp_json r = Some v \<or> result_envelope v"
    using assms by (rule handle_response_envelope)
  moreover have "result_envelope v" if "resp_json r = Some v"
  proof (cases "raise_for_status r")
    case (Some e)
    then obtain m where "e = HTTPError m"
      using raise_for_status_HTTPError by blast
    then show ?thesis
      using assms Some
      by (auto simp: handle_response_def result_envelope_def field_def split: if_splits)
  next
    case None
    then have n: "\<not> (400 \<le> resp_status r \<and> resp_status r < 600)"
      by (simp add: raise_for_status_None_iff)
    let ?ct = "str_lower (case resp_content_type r of Some c \<Rightarrow> c | None \<Rightarrow> [])"
    consider (s) "resp_status r = 404 \<or> resp_status r = 401 \<or> resp_status r = 403"
      | (b) "resp_status r \<noteq> 404" "resp_status r \<noteq> 401" "resp_status r \<noteq> 403"
            "startswith ?ct ''image/'' \<or> startswith ?ct ''application/octet-stream''"
      using False n unfolding passes_through_def by blast
    then show ?thesis
    proof cases
      case s
      then show ?thesis
        using assms
        by (auto simp: handle_response_def result_envelope_def field_def split: if_splits)
    next
      case b
      then have "save_binary cfg w ?ct r = Inr v"
        using assms None by (simp add: handle_response_def Let_def)
      then show ?thesis by (rule save_binary_envelope)
    qed
  qed
  ultimately have "result_envelope v" by blast
  then show ?thesis by (rule disjI2)
qed

lemma make_api_request_passes_through:
  assumes "make_api_request cfg w url method params json_data timeout = Inr v"
  shows "(\<exists>r. http w (api_request cfg url method params json_data timeout) = Inr r
              \<and> passes_through r \<and> resp_json r = Some v)
         \<or> result_envelope v"
proof (cases "http w (api_request cfg url method params json_data timeout)")
  case (Inl e)
  then have "handle_exception url
      (req_timeout (api_request cfg url method params json_data timeout)) e = Inr v"
    using assms by (simp add: make_api_request_def Let_def)
  then have "result_envelope v" by (rule handle_exception_envelope)
  then show ?thesis by (rule disjI2)
next
  case (Inr r)
  show ?thesis
  proof (cases "handle_response cfg w url r")
    case (Inl e)
    then have "handle_exception url
        (req_timeout (api_request cfg url method params json_data timeout)) e = Inr v"
      using assms Inr by (simp add: make_api_request_def Let_def)
    then have "result_envelope v" by (rule handle_exception_envelope)
    then show ?thesis by (rule disjI2)
  next
    case v': (Inr v')
    then have "v' = v"
      using assms Inr by (simp add: make_api_request_def Let_def)
    then have "handle_response cfg w url r = Inr v" using v' by simp
    from handle_response_passes_through [OF this] show ?thesis
      using Inr by auto
  qed
qed

lemma make_api_request_verbatim:
  assumes "http w (api_request cfg url method params json_data timeout) = Inr r"
    and "passes_through r" and "resp_json r = Some j"
  shows "make_api_request cfg w url method params json_data timeout = Inr j"
  using assms handle_response_verbatim [OF assms(2) assms(3), of cfg w url]
  by (simp add: make_api_request_def Let_def)

text \<open>
  C5 (amended). When an invocation of a dynamic tool completes, the result is either the
  JSON body of the server's response returned as it is, with no envelope around it, or
  an envelope with a boolean \<open>success\<close> and a \<open>description\<close>: a failed one carries an
  \<open>error\<close> string and a \<open>status_code\<close> and no data, a successful one carries a
  text \<open>data\<close> or the \<open>path\<close> of a saved file and has no \<open>error\<close> key. The body is
  returned as it is only for a response that passes through (a status that is none of
  404, 401, 403 and lies outside 400-599, and a content type that is neither an image nor
  an octet stream), and for every such response whose body parses as JSON the result is
  that JSON.
\<close>

theorem dynamic_tool_func_result:
  assumes "dynamic_tool_func cfg str_of w path method operation parameters = Inr v"
  shows "((\<exists>req r. closure_request cfg str_of path method operation parameters = Inr req
                 \<and> http w req = Inr r \<and> passes_through r \<and> resp_json r = Some v)
          \<or> result_envelope v)
       \<and> (\<forall>req r j. closure_request cfg str_of path method operation parameters = Inr req
                 \<longrightarrow> http w req = Inr r \<longrightarrow> passes_through r \<longrightarrow> resp_json r = Some j
                 \<longrightarrow> v = j)"
proof -
  from assms obtain declared ds ps' url where
    g: "py_get operation ''parameters'' (JArr []) = Inr declared" and
    i: "py_iter declared = Inr ds" and
    s: "substitute_path_params str_of ds
          (case parameters of Some ps \<Rightarrow> ps | None \<Rightarrow> [], server_base_url cfg @ path)
        = Inr (ps', url)" and
    m: "make_api_request cfg w url (str_upper method)
          (if str_upper method = ''GET'' then Some ps' else None)
          (if str_upper method \<noteq> ''GET'' then Some ps' else None) None = Inr v"
    unfolding dynamic_tool_func_def Let_def
    by (auto split: sum.splits prod.splits)
  let ?req = "api_request cfg url (str_upper method)
                  (if str_upper method = ''GET'' then Some ps' else None)
                  (if str_upper method \<noteq> ''GET'' then Some ps' else None) None"
  have c: "closure_request cfg str_of path method operation parameters = Inr ?req"
    using g i s by (simp add: closure_request_def)
  have a: "(\<exists>req r. closure_request cfg str_of path method operation parameters = Inr req
                 \<and> http w req = Inr r \<and> passes_through r \<and> resp_json r = Some v)
          \<or> result_envelope v"
    using make_api_request_passes_through [OF m] c by auto
  have b: "v = j"
    if "closure_request cfg str_of path method operation parameters = Inr req"
      and h: "http w req = Inr r" and p: "passes_through r" and j: "resp_json r = Some j"
    for req r j
  proof -
    have "req = ?req" using that(1) c by simp
    then have "http w ?req = Inr r" using h by simp
    from make_api_request_verbatim [OF this p j] show ?thesis using m by simp
  qed
  show ?thesis
    using a b by (intro conjI allI impI) (assumption | simp)+
qed

theorem dynamic_tool_func_result_witness:
  "dynamic_tool_func default_settings scalar_str (world_of (Inl (Timeout ''read timed out'')))
     ''/cards'' ''get'' (JObj []) None
   = Inr (JObj [(''success'', JBool False),
                (''error'', JStr ''Request timed out''),
                (''status_code'', JNum 408),
                (''description'',
                 JStr ''The request to https://pad.crc.nd.edu/cards timed out after 30 seconds.'')])
   \<and> result_envelope (JObj [(''success'', JBool False),
                (''error'', JStr ''Request timed out''),
                (''status_code'', JNum 408),
                (''description'',
                 JStr ''The request to https://pad.crc.nd.edu/cards timed out after 30 seconds.'')])
   \<and> passes_through json_list_response
   \<and> dynamic_tool_func default_settings scalar_str (world_of (Inr json_list_response))
       ''/cards'' ''get'' (JObj []) None = Inr (JArr [JNum 1, JNum 2])"
proof -
  let ?env = "JObj [(''success'', JBool False),
                (''error'', JStr ''Request timed out''),
                (''status_code'', JNum 408),
                (''description'',
                 JStr ''The request to https://pad.crc.nd.edu/cards timed out after 30 seconds.'')]"
  have e: "dynamic_tool_func default_settings scalar_str
     (world_of (Inl (Timeout ''read timed out''))) ''/cards'' ''get'' (JObj []) None = Inr ?env"
    by (simp add: dynamic_tool_func_def make_api_request_def api_request_def world_of_def
        default_settings_def str_int_def digit_char_def)
  have n: "http (world_of (Inl (Timeout ''read timed out''))) req \<noteq> Inr r" for req r
    by (simp add: world_of_def)
  have r: "result_envelope ?env"
    using dynamic_tool_func_result [OF e] n by blast
  have p: "passes_through json_list_response"
    by (simp add: passes_through_def json_list_response_def response_of_def startswith_def
        str_lower_def lower_char_def upper_letters_def lower_letters_def)
  have c: "closure_request default_settings scalar_str ''/cards'' ''get'' (JObj []) None
           = Inr (api_request default_settings ''https://pad.crc.nd.edu/cards'' ''GET''
                    (Some []) None None)"
    by (simp add: closure_request_def default_settings_def str_upper_def upper_char_def
        upper_letters_def lower_letters_def api_request_def)
  obtain v where v: "dynamic_tool_func default_settings scalar_str
       (world_of (Inr json_list_response)) ''/cards'' ''get'' (JObj []) None = Inr v"
    by (simp add: dynamic_tool_func_def make_api_request_def api_request_def world_of_def
      default_settings_def json_list_response_def response_of_def handle_response_def
      raise_for_status_def startswith_def str_lower_def lower_char_def upper_letters_def
      lower_letters_def)
  have h: "http (world_of (Inr json_list_response))
             (api_request default_settings ''https://pad.crc.nd.edu/cards'' ''GET''
                    (Some []) None None) = Inr json_list_response"
    by (simp add: world_of_def)
  have j: "resp_json json_list_response = Some (JArr [JNum 1, JNum 2])"
    by (simp add: json_list_response_def response_of_def)
  have "v = JArr [JNum 1, JNum 2]"
    using dynamic_tool_func_result [OF v] c h p j by blast
  then show ?thesis
    using e r p v by simp
qed

text \<open>
  C5 as stated fails: a 200 response whose body parses as JSON is returned verbatim; here
  the result is a list, with no \<open>success\<close>, \<open>error\<close> or \<open>description\<close>.
\<close>

theorem dynamic_tool_func_verbatim:
  "dynamic_tool_func default_settings scalar_str (world_of (Inr json_list_response))
     ''/cards'' ''get'' (JObj []) None = Inr (JArr [JNum 1, JNum 2])
   \<and> field (JArr [JNum 1, JNum 2]) ''success'' = None
   \<and> field (JArr [JNum 1, JNum 2]) ''error'' = None
   \<and> field (JArr [JNum 1, JNum 2]) ''description'' = None"
  by (simp add: dynamic_tool_func_def make_api_request_def api_request_def world_of_def
      default_settings_def json_list_response_def response_of_def handle_response_def
      raise_for_status_def startswith_def str_lower_def lower_char_def upper_letters_def
      lower_letters_def field_def)

text \<open>
  C6 (amended). Status 404, 401 and 403 give a failure envelope with that status code;
  any other status from 400 to 599 gives a failure envelope with status code 500 whose
  \<open>error\<close> is the text of the \<open>HTTPError\<close>; a timeout gives status code 408 and a
  description that names the timeout in force (the configured one when none is passed); a
  connection failure gives status code 503. In each case a value is returned.
\<close>

theorem make_api_request_failures:
  assumes "req = api_request cfg url method params json_data timeout"
    and "res = make_api_request cfg w url method params json_data timeout"
  shows "(\<forall>r. http w req = Inr r \<longrightarrow> resp_status r \<in> {404, 401, 403} \<longrightarrow>
            (\<exists>env. res = Inr env \<and> failure_envelope env (resp_status r)))
       \<and> (\<forall>r. http w req = Inr r \<longrightarrow> resp_status r \<notin> {404, 401, 403} \<longrightarrow>
            400 \<le> resp_status r \<longrightarrow> resp_status r < 600 \<longrightarrow>
            (\<exists>env m. raise_for_status r = Some (HTTPError m) \<and> res = Inr env
                     \<and> failure_envelope env 500 \<and> field env ''error'' = Some (JStr m)))
       \<and> (\<forall>m. http w req = Inl (Timeout m) \<longrightarrow>
            (\<exists>env d. res = Inr env \<and> failure_envelope env 408
                     \<and> field env ''description'' = Some (JStr d)
                     \<and> str_in (str_int (case timeout of None \<Rightarrow> request_timeout cfg
                                                      | Some t \<Rightarrow> t)) d))
       \<and> (\<forall>m. http w req = Inl (ConnectionError m) \<longrightarrow>
            (\<exists>env. res = Inr env \<and> failure_envelope env 503))"
proof -
  have t: "req_timeout req = (case timeout of None \<Rightarrow> request_timeout cfg | Some t \<Rightarrow> t)"
    using assms(1) by (simp add: api_request_def)
  have a: "\<exists>env. res = Inr env \<and> failure_envelope env (resp_status r)"
    if "http w req = Inr r" and "resp_status r \<in> {404, 401, 403}" for r
    using that assms
    by (auto simp: make_api_request_def Let_def handle_response_def failure_envelope_def field_def)
  have b: "\<exists>env m. raise_for_status r = Some (HTTPError m) \<and> res = Inr env
                     \<and> failure_envelope env 500 \<and> field env ''error'' = Some (JStr m)"
    if h: "http w req = Inr r" and n: "resp_status r \<notin> {404, 401, 403}"
      and lo: "400 \<le> resp_status r" and hi: "resp_status r < 600" for r
  proof -
    obtain m where m: "raise_for_status r = Some (HTTPError m)"
      using raise_for_status_range [OF lo hi] by blast
    then have "handle_response cfg w url r = Inl (HTTPError m)"
      using n by (simp add: handle_response_def)
    then have "res = Inr (JObj [(''success'', JBool False), (''error'', JStr m),
                (''status_code'', JNum 500), (''description'', JStr (''Request failed: '' @ m))])"
      using h assms by (simp add: make_api_request_def Let_def)
    then show ?thesis
      using m by (simp add: failure_envelope_def field_def)
  qed
  have c: "\<exists>env d. res = Inr env \<and> failure_envelope env 408
                     \<and> field env ''description'' = Some (JStr d)
                     \<and> str_in (str_int (case timeout of None \<Rightarrow> request_timeout cfg
                                                      | Some t \<Rightarrow> t)) d"
    if h: "http w req = Inl (Timeout m)" for m
  proof -
    let ?t = "str_int (case timeout of None \<Rightarrow> request_timeout cfg | Some t \<Rightarrow> t)"
    let ?d = "''The request to '' @ url @ '' timed out after '' @ ?t @ '' seconds.''"
    have r: "res = Inr (JObj [(''success'', JBool False), (''error'', JStr ''Request timed out''),
                (''status_code'', JNum 408), (''description'', JStr ?d)])"
      using h assms t by (simp add: make_api_request_def Let_def)
    have "?d = (''The request to '' @ url @ '' timed out after '') @ ?t @ '' seconds.''"
      by simp
    then have "str_in ?t ?d"
      unfolding str_in_iff by blast
    then show ?thesis
      using r by (simp add: failure_envelope_def field_def)
  qed
  have d: "\<exists>env. res = Inr env \<and> failure_envelope env 503"
    if "http w req = Inl (ConnectionError m)" for m
    using that assms
    by (simp add: make_api_request_def Let_def failure_envelope_def field_def)
  show ?thesis
    using a b c d by (intro conjI allI impI) assumption+
qed

theorem make_api_request_failures_witness:
  "(\<exists>env. make_api_request default_settings
            (world_of (Inr (response_of 404 ''Not Found'' None [] None)))
            ''https://pad.crc.nd.edu/cards/0'' ''GET'' None None None = Inr env
          \<and> failure_envelope env 404)
   \<and> (\<exists>env. make_api_request default_settings
            (world_of (Inr (response_of 502 ''Bad Gateway'' None [] None)))
            ''https://pad.crc.nd.edu/cards/0'' ''GET'' None None None = Inr env
          \<and> failure_envelope env 500)
   \<and> (\<exists>env. make_api_request default_settings
            (world_of (Inl (Timeout ''read timed out'')))
            ''https://pad.crc.nd.edu/cards/0'' ''GET'' None None None = Inr env
          \<and> failure_envelope env 408)
   \<and> (\<exists>env. make_api_request default_settings
            (world_of (Inl (ConnectionError ''connection refused'')))
            ''https://pad.crc.nd.edu/cards/0'' ''GET'' None None None = Inr env
          \<and> failure_envelope env 503)"
proof -
  have a: "\<exists>env. make_api_request default_settings
            (world_of (Inr (response_of 404 ''Not Found'' None [] None)))
            ''https://pad.crc.nd.edu/cards/0'' ''GET'' None None None = Inr env
          \<and> failure_envelope env 404"
    using make_api_request_failures [OF refl refl,
        of "world_of (Inr (response_of 404 ''Not Found'' None [] None))" default_settings
          "''https://pad.crc.nd.edu/cards/0''" "''GET''" None None None]
    by (simp add: world_of_def response_of_def)
  have b: "\<exists>env. make_api_request default_settings
            (world_of (Inr (response_of 502 ''Bad Gateway'' None [] None)))
            ''https://pad.crc.nd.edu/cards/0'' ''GET'' None None None = Inr env
          \<and> failure_envelope env 500"
    using make_api_request_failures [OF refl refl,
        of "world_of (Inr (response_of 502 ''Bad Gateway'' None [] None))" default_settings
          "''https://pad.crc.nd.edu/cards/0''" "''GET''" None None None]
    by (auto simp: world_of_def response_of_def)
  have c: "\<exists>env. make_api_request default_settings
            (world_of (Inl (Timeout ''read timed out'')))
            ''https://pad.crc.nd.edu/cards/0'' ''GET'' None None None = Inr env
          \<and> failure_envelope env 408"
    using make_api_request_failures [OF refl refl,
        of "world_of (Inl (Timeout ''read timed out''))" default_settings
          "''https://pad.crc.nd.edu/cards/0''" "''GET''" None None None]
    by (auto simp: world_of_def)
  have d: "\<exists>env. make_api_request default_settings
            (world_of (Inl (ConnectionError ''connection refused'')))
            ''https://pad.crc.nd.edu/cards/0'' ''GET'' None None None = Inr env
          \<and> failure_envelope env 503"
    using make_api_request_failures [OF refl refl,
        of "world_of (Inl (ConnectionError ''connection refused''))" default_settings
          "''https://pad.crc.nd.edu/cards/0''" "''GET''" None None None]
    by (auto simp: world_of_def)
  show ?thesis
    using a b c d by (intro conjI) assumption+
qed

text \<open>
  C6 as stated fails for a status outside 200-299 that is not in 400-599: a 304 response is
  handled as a success.
\<close>

theorem make_api_request_not_modified:
  "resp_status not_modified_response = 304
   \<and> make_api_request default_settings (world_of (Inr not_modified_response))
       ''https://pad.crc.nd.edu/cards'' ''GET'' None None None
     = Inr (JObj [(''success'', JBool True),
                  (''data'', JStr []),
                  (''content_type'', JStr []),
                  (''description'', JStr ''Response is not JSON data'')])"
  by (simp add: make_api_request_def api_request_def world_of_def not_modified_response_def
      response_of_def handle_response_def raise_for_status_def startswith_def str_lower_def)

section \<open>Region statistics: clamping\<close>

















section \<open>Bounding box validation\<close>

lemma compute_average_rgb_missing:
  assumes "bbox = None \<or> (\<exists>b. bbox = Some b \<and> \<not> bbox_complete b)"
  shows "\<exists>err d. compute_average_rgb env bbox image_path = Inr (failure err d) \<and> err \<noteq> []"
proof (cases "path_exists env image_path")
  case False
  then have "compute_average_rgb env bbox image_path =
      Inr (failure (''Image path does not exist: '' @ image_path)
             ''Failed to locate the specified image file.'')"
    by (simp add: compute_average_rgb_def compute_average_rgb_body_def)
  then show ?thesis by blast
next
  case True
  have "(case bbox of None \<Rightarrow> True | Some b \<Rightarrow> b = [] \<or> \<not> bbox_complete b)"
    using assms by (auto split: option.splits)
  then have "compute_average_rgb env bbox image_path =
      Inr (failure (''Bounding box must contain '' @ quoted ''x1'' @ '', '' @ quoted ''y1''
                      @ '', '' @ quoted ''x2'' @ '', and '' @ quoted ''y2'' @ '' keys.'')
               ''Invalid bounding box specification.'')"
    using True by (simp add: compute_average_rgb_def compute_average_rgb_body_def)
  then show ?thesis by blast
qed

lemma compute_average_rgb_rejected:
  assumes "bbox = Some b" and "bbox_coords b = Inr box"
    and "case open_rgb env image_path of
           Inr img \<Rightarrow> bbox_rejected (img_width img) (img_height img) box
         | Inl e \<Rightarrow> True"
  shows "\<exists>err d. compute_average_rgb env bbox image_path = Inr (failure err d) \<and> err \<noteq> []"
proof (cases "bbox_complete b \<and> path_exists env image_path")
  case False
  then consider "\<not> bbox_complete b" | "\<not> path_exists env image_path" by blast
  then show ?thesis
  proof cases
    case 1
    then show ?thesis using compute_average_rgb_missing assms(1) by blast
  next
    case 2
    then have "compute_average_rgb env bbox image_path =
      Inr (failure (''Image path does not exist: '' @ image_path)
             ''Failed to locate the specified image file.'')"
      by (simp add: compute_average_rgb_def compute_average_rgb_body_def)
    then show ?thesis by blast
  qed
next
  case True
  then have ne: "b \<noteq> []"
    by (auto simp: bbox_complete_def bbox_keys_def)
  obtain x1 y1 x2 y2 where box: "box = (x1, y1, x2, y2)"
    by (cases box) auto
  show ?thesis
  proof (cases "open_rgb env image_path")
    case (Inl e)
    then have "compute_average_rgb env bbox image_path =
        Inr (failure (''Failed to open image: '' @ exn_str e)
               ''Could not open or process the image file.'')"
      using True ne assms(1)
      by (simp add: compute_average_rgb_def compute_average_rgb_body_def)
    then show ?thesis by blast
  next
    case (Inr img)
    then have "bbox_rejected (img_width img) (img_height img) (x1, y1, x2, y2)"
      using assms(3) box by simp
    then have "compute_average_rgb env bbox image_path =
        Inr (failure (''Invalid bounding box coordinates: '' @ bbox_repr b
                      @ '' for image size '' @ str_int (img_width img) @ ''x''
                      @ str_int (img_height img))
               ''Bounding box coordinates are outside image dimensions or invalid.'')"
      using True ne assms(1) assms(2) box Inr
      by (simp add: compute_average_rgb_def compute_average_rgb_body_def)
    then show ?thesis by blast
  qed
qed

lemma analyze_region_incomplete:
  assumes "\<not> bbox_complete (case region_bbox r of Some b \<Rightarrow> b | None \<Rightarrow> [])"
  shows "analyze_region img_array width height i r = Inr (region_label i r, invalid_entry)"
  using assms by (simp add: analyze_region_def invalid_entry_def)

text \<open>
  C7 (amended). The average-RGB tool rejects a bounding box that is absent, lacks one of
  the four keys, lies outside the opened image or is inverted: it returns
  \<open>success = False\<close> with a non-empty error message and an empty \<open>data\<close>. The
  region-statistics tool does not reject: a region whose box lacks a key gets the entry
  \<open>invalid_entry\<close>, with no statistics, and the tool itself still returns
  \<open>success = True\<close>.
\<close>

theorem bbox_validation:
  "((bbox = None \<or> (\<exists>b. bbox = Some b \<and> \<not> bbox_complete b)
     \<or> (\<exists>b box. bbox = Some b \<and> bbox_coords b = Inr box
           \<and> (case open_rgb env image_path of
                 Inr img \<Rightarrow> bbox_rejected (img_width img) (img_height img) box
               | Inl e \<Rightarrow> True)))
    \<longrightarrow> (\<exists>err d. compute_average_rgb env bbox image_path = Inr (failure err d) \<and> err \<noteq> []))
   \<and> (\<not> bbox_complete (case region_bbox r of Some b \<Rightarrow> b | None \<Rightarrow> [])
    \<longrightarrow> analyze_region img_array width height i r = Inr (region_label i r, invalid_entry)
      \<and> (path_exists env image_path \<and> open_rgb env image_path = Inr img
           \<and> img_data img = Inr img_array
          \<longrightarrow> analyze_image_regions env image_path [r] =
                Inr (JObj [(''success'', JBool True),
                           (''data'', JObj [(region_label 0 r, invalid_entry)]),
                           (''error'', JStr []),
                           (''description'', JStr ''Analyzed 1 regions in the image.'')])))"
proof -
  have a: "\<exists>err d. compute_average_rgb env bbox image_path = Inr (failure err d) \<and> err \<noteq> []"
    if "bbox = None \<or> (\<exists>b. bbox = Some b \<and> \<not> bbox_complete b)
     \<or> (\<exists>b box. bbox = Some b \<and> bbox_coords b = Inr box
           \<and> (case open_rgb env image_path of
                 Inr img \<Rightarrow> bbox_rejected (img_width img) (img_height img) box
               | Inl e \<Rightarrow> True))"
  proof -
    from that consider
        (missing) "bbox = None \<or> (\<exists>b. bbox = Some b \<and> \<not> bbox_complete b)"
      | (rejected) b box where "bbox = Some b" and "bbox_coords b = Inr box"
          and "case open_rgb env image_path of
                 Inr img \<Rightarrow> bbox_rejected (img_width img) (img_height img) box
               | Inl e \<Rightarrow> True"
      by blast
    then show ?thesis
    proof cases
      case missing
      then show ?thesis by (rule compute_average_rgb_missing)
    next
      case rejected
      then show ?thesis by (rule compute_average_rgb_rejected)
    qed
  qed
  have b: "analyze_region img_array width height i r = Inr (region_label i r, invalid_entry)"
    if "\<not> bbox_complete (case region_bbox r of Some b \<Rightarrow> b | None \<Rightarrow> [])"
    using that by (rule analyze_region_incomplete)
  have c: "analyze_image_regions env image_path [r] =
                Inr (JObj [(''success'', JBool True),
                           (''data'', JObj [(region_label 0 r, invalid_entry)]),
                           (''error'', JStr []),
                           (''description'', JStr ''Analyzed 1 regions in the image.'')])"
    if n: "\<not> bbox_complete (case region_bbox r of Some b \<Rightarrow> b | None \<Rightarrow> [])"
      and "path_exists env image_path" and "open_rgb env image_path = Inr img"
      and "img_data img = Inr img_array"
    using that analyze_region_incomplete [OF n, of img_array "img_width img" "img_height img" 0]
    by (simp add: analyze_image_regions_def analyze_image_regions_body_def str_int_def
        digit_char_def)
  show ?thesis
    using a b c by (intro conjI impI) (assumption | elim conjE)+
qed

lemma open_rgb_sample: "open_rgb sample_env ''card.png'' = Inr sample_image"
  by (simp add: open_rgb_def sample_env_def sample_image_def)

theorem bbox_validation_witness:
  "(\<exists>err d. compute_average_rgb sample_env
               (Some [(''x1'', 1), (''y1'', 0), (''x2'', 0), (''y2'', 1)]) ''card.png''
             = Inr (failure err d) \<and> err \<noteq> [])
   \<and> analyze_region sample_pixels 2 2 0 partial_region = Inr (''region_1'', invalid_entry)
   \<and> analyze_image_regions sample_env ''card.png'' [partial_region] =
       Inr (JObj [(''success'', JBool True),
                  (''data'', JObj [(''region_1'', invalid_entry)]),
                  (''error'', JStr []),
                  (''description'', JStr ''Analyzed 1 regions in the image.'')])"
proof -
  have h1: "\<exists>b box. Some [(''x1'', 1), (''y1'', 0), (''x2'', 0), (''y2'', 1)] = Some b
              \<and> bbox_coords b = Inr box
              \<and> (case open_rgb sample_env ''card.png'' of
                    Inr img \<Rightarrow> bbox_rejected (img_width img) (img_height img) box
                  | Inl e \<Rightarrow> True)"
    by (simp add: open_rgb_sample bbox_coords_def bbox_item_def bbox_rejected_def)
  have h2: "\<not> bbox_complete (case region_bbox partial_region of Some b \<Rightarrow> b | None \<Rightarrow> [])"
    by (simp add: partial_region_def bbox_complete_def bbox_keys_def)
  have h3: "path_exists sample_env ''card.png''"
    by (simp add: sample_env_def)
  have h4: "img_data sample_image = Inr sample_pixels"
    by (simp add: sample_image_def)
  have l: "region_label 0 partial_region = ''region_1''"
    by (simp add: region_label_def partial_region_def str_int_def digit_char_def)
  note v = bbox_validation [where bbox = "Some [(''x1'', 1), (''y1'', 0), (''x2'', 0), (''y2'', 1)]"
      and env = sample_env and image_path = "''card.png''" and r = partial_region
      and img_array = sample_pixels and width = 2 and height = 2 and i = 0
      and img = sample_image]
  show ?thesis
    using v h1 h2 h3 h4 open_rgb_sample unfolding l by (simp only: simp_thms)
qed

text \<open>
  C7 as stated fails for the region-statistics tool: a box outside the image and inverted
  is clamped, statistics are computed and the tool returns \<open>success = True\<close>.
\<close>

theorem analyze_image_regions_clamps:
  "analyze_image_regions sample_env ''card.png'' [stray_region] =
     Inr (JObj [(''success'', JBool True),
                (''data'',
                 JObj [(''region_1'',
                        JObj [(''bbox'', JObj [(''x1'', JNum 1), (''y1'', JNum 0),
                                               (''x2'', JNum 2), (''y2'', JNum 1)]),
                              (''size'', JObj [(''width'', JNum 1), (''height'', JNum 1)]),
                              (''channels'',
                               JObj [(''r'', JObj [(''avg'', JFloat 50), (''min'', JFloat 50)]),
                                     (''g'', JObj [(''avg'', JFloat 60), (''min'', JFloat 60)]),
                                     (''b'', JObj [(''avg'', JFloat 70), (''min'', JFloat 70)])]),
                              (''valid'', JBool True)])]),
                (''error'', JStr []),
                (''description'', JStr ''Analyzed 1 regions in the image.'')])"
proof -
  have e: "analyze_region sample_pixels 2 2 0 stray_region =
     Inr (''region_1'',
          JObj [(''bbox'', JObj [(''x1'', JNum 1), (''y1'', JNum 0),
                                 (''x2'', JNum 2), (''y2'', JNum 1)]),
                (''size'', JObj [(''width'', JNum 1), (''height'', JNum 1)]),
                (''channels'',
                 JObj [(''r'', JObj [(''avg'', JFloat 50), (''min'', JFloat 50)]),
                       (''g'', JObj [(''avg'', JFloat 60), (''min'', JFloat 60)]),
                       (''b'', JObj [(''avg'', JFloat 70), (''min'', JFloat 70)])]),
                (''valid'', JBool True)])"
    by (simp add: sample_pixels_def stray_region_def analyze_region_def
        bbox_complete_def bbox_keys_def bbox_coords_def bbox_item_def clamp_bbox_def
        extract_region_def py_slice_def channel_results_def channel_data_def np_mean_def
        region_metric_names_def valid_metrics_def region_label_def str_int_def digit_char_def
        Let_def numeral_2_eq_2)
  have p: "path_exists sample_env ''card.png''"
    by (simp add: sample_env_def)
  have i: "img_data sample_image = Inr sample_pixels" "img_width sample_image = 2"
    "img_height sample_image = 2"
    by (simp_all add: sample_image_def)
  show ?thesis
    by (simp add: analyze_image_regions_def analyze_image_regions_body_def open_rgb_sample
        p i e str_int_def digit_char_def)
qed

section \<open>Tool boundary\<close>

























end
